theory Spec2Isabelle
  imports Complex_Main "HOL-Library.AList"
begin

section \<open>Python values\<close>

text \<open>
  The source is Python. Its \<^verbatim>\<open>float\<close> values are modelled as \<^typ>\<open>real\<close> numbers:
  comparisons and the constants \<open>0.85\<close>, \<open>0.7\<close>, \<open>1.1\<close>, \<open>1.05\<close> are exact, rounding of
  products and NaN are not represented. A \<^verbatim>\<open>Dict[str, Any]\<close> is an association list
  in insertion order, read with \<^const>\<open>map_of\<close>; the calls \<^verbatim>\<open>time.time()\<close> and
  \<^verbatim>\<open>uuid.uuid4()\<close> are inputs of the function that makes them.
\<close>

datatype pyval =
    PyNone
  | PyBool bool
  | PyStr string
  | PyFloat real
  | PyList "pyval list"
  | PyDict "(string \<times> pyval) list"

type_synonym pydict = "(string \<times> pyval) list"

text \<open>\<^verbatim>\<open>d.get(key, default)\<close>\<close>

definition dict_get :: "('k \<times> 'v) list \<Rightarrow> 'k \<Rightarrow> 'v \<Rightarrow> 'v" where
  "dict_get d key dflt = (case map_of d key of None \<Rightarrow> dflt | Some v \<Rightarrow> v)"

text \<open>
  \<^verbatim>\<open>d.update(other)\<close>: the keys of \<open>other\<close> are stored one after the other; a key
  that \<open>d\<close> has keeps its position and takes the new value, a new key goes to the end.
\<close>

definition dict_update :: "(string \<times> 'v) list \<Rightarrow> (string \<times> 'v) list \<Rightarrow> (string \<times> 'v) list" where
  "dict_update d other = fold (\<lambda>(k, v) acc. AList.update k v acc) other d"

text \<open>
  \<^verbatim>\<open>repr\<close> of a string: the quote is the apostrophe, or the double quote when the
  string has an apostrophe and no double quote; the quote and the backslash are escaped
  with a backslash; tab, newline and carriage return are written as a backslash and the
  letter \<open>t\<close>, \<open>n\<close> or \<open>r\<close>; another control character is written as a backslash, the
  letter \<open>x\<close> and two hexadecimal digits. The bytes from 0x80 on, which encode the
  characters outside ASCII, pass unchanged, as those characters do when they are printable.
\<close>

definition hex2 :: "nat \<Rightarrow> string" where
  "hex2 n = [''0123456789abcdef'' ! (n div 16), ''0123456789abcdef'' ! (n mod 16)]"

definition repr_char :: "char \<Rightarrow> char \<Rightarrow> string" where
  "repr_char q c =
     (if c = q \<or> c = CHR 0x5C then [CHR 0x5C, c]
      else if c = CHR 0x09 then [CHR 0x5C, CHR ''t'']
      else if c = CHR 0x0A then [CHR 0x5C, CHR ''n'']
      else if c = CHR 0x0D then [CHR 0x5C, CHR ''r'']
      else if (of_char c :: nat) < 32 \<or> c = CHR 0x7F then [CHR 0x5C, CHR ''x''] @ hex2 (of_char c)
      else [c])"

definition repr :: "string \<Rightarrow> string" where
  "repr s =
     (let q = (if CHR 0x27 \<in> set s \<and> CHR 0x22 \<notin> set s then CHR 0x22 else CHR 0x27)
      in [q] @ concat (map (repr_char q) s) @ [q])"

text \<open>
  Exceptions that are instances of Python's \<^verbatim>\<open>Exception\<close> class, the class that the
  handlers of the source (\<^verbatim>\<open>except Exception\<close>) match. \<open>ValueError m\<close> and
  \<open>RuntimeError m\<close> are raised with the one argument \<open>m\<close>; \<open>KeyError k\<close> is what
  \<^verbatim>\<open>d[k]\<close> raises on a missing string key \<open>k\<close>; the last constructor carries the class
  name and the text \<^verbatim>\<open>str(e)\<close> of any other exception \<open>e\<close> of a class derived from
  \<^verbatim>\<open>Exception\<close>.
\<close>

datatype exn =
    ValueError string
  | RuntimeError string
  | KeyError string
  | Exception string string

text \<open>\<^verbatim>\<open>type(e).__name__\<close>\<close>

fun exn_type_name :: "exn \<Rightarrow> string" where
  "exn_type_name (ValueError m) = ''ValueError''"
| "exn_type_name (RuntimeError m) = ''RuntimeError''"
| "exn_type_name (KeyError k) = ''KeyError''"
| "exn_type_name (Exception c m) = c"

text \<open>
  \<^verbatim>\<open>str(e)\<close>: the argument of an exception raised with one argument; for a
  \<^verbatim>\<open>KeyError\<close>, the \<^verbatim>\<open>repr\<close> of the key, so the key inside quotes.
\<close>

fun exn_message :: "exn \<Rightarrow> string" where
  "exn_message (ValueError m) = m"
| "exn_message (RuntimeError m) = m"
| "exn_message (KeyError k) = repr k"
| "exn_message (Exception c m) = m"

text \<open>
  What a call may raise: an instance of \<^verbatim>\<open>Exception\<close>, or an exception of a class that
  derives from \<^verbatim>\<open>BaseException\<close> and not from \<^verbatim>\<open>Exception\<close>, such as
  \<^verbatim>\<open>KeyboardInterrupt\<close>, \<^verbatim>\<open>SystemExit\<close> and \<^verbatim>\<open>GeneratorExit\<close>, given by the name of
  its class. A handler \<^verbatim>\<open>except Exception\<close> matches the first kind only.
\<close>

datatype raised =
    Exc exn
  | BaseExc string

section \<open>Trace lifecycle (perception/trajectory_builder.py)\<close>

datatype trace_state = CREATED | ACTIVE | BLOCKED | COMPLETED | INVALID | ARCHIVED

fun state_name :: "trace_state \<Rightarrow> string" where
  "state_name CREATED = ''CREATED''"
| "state_name ACTIVE = ''ACTIVE''"
| "state_name BLOCKED = ''BLOCKED''"
| "state_name COMPLETED = ''COMPLETED''"
| "state_name INVALID = ''INVALID''"
| "state_name ARCHIVED = ''ARCHIVED''"

text \<open>The frozen dataclass \<^verbatim>\<open>Trace\<close>; its field \<^verbatim>\<open>context\<close> is \<open>trace_context\<close> here.\<close>

record Trace =
  trace_id :: string
  state :: trace_state
  created_at :: real
  closed_at :: "real option"
  origin :: pydict
  trace_context :: pydict
  lifecycle_log :: "pydict list"

text \<open>
  \<^verbatim>\<open>TrajectoryBuilder.create_trace\<close>. \<open>uuid\<close> is the result of \<^verbatim>\<open>str(uuid.uuid4())\<close>,
  \<open>now\<close> the result of \<^verbatim>\<open>time.time()\<close>.
\<close>

definition create_trace :: "string \<Rightarrow> real \<Rightarrow> pydict \<Rightarrow> pydict \<Rightarrow> Trace" where
  "create_trace uuid now origin_d context_d =
     \<lparr> trace_id = uuid,
       state = CREATED,
       created_at = now,
       closed_at = None,
       origin = origin_d,
       trace_context = context_d,
       lifecycle_log =
         [[(''event'', PyStr ''TRACE_CREATED''),
           (''trace_id'', PyStr uuid),
           (''source'', dict_get origin_d ''source_id'' (PyStr ''unknown'')),
           (''modality'', dict_get origin_d ''modality'' (PyStr ''text'')),
           (''timestamp'', PyFloat now)]] \<rparr>"

definition allowed_transitions :: "(trace_state \<times> trace_state list) list" where
  "allowed_transitions =
     [(CREATED, [ACTIVE, BLOCKED]),
      (ACTIVE, [BLOCKED, COMPLETED]),
      (BLOCKED, [INVALID]),
      (COMPLETED, [ARCHIVED])]"

text \<open>The arrow of the second error message, U+2192, as its three UTF-8 bytes.\<close>

definition arrow :: string where
  "arrow = [CHR 0xE2, CHR 0x86, CHR 0x92]"

text \<open>
  \<^verbatim>\<open>TraceManager.transition_trace\<close>. The function reads the clock twice: \<open>t_log\<close> is
  the reading stored in the log entry, \<open>t_close\<close> the later one stored in \<open>closed_at\<close>.
  \<open>event_data\<close> is \<open>None\<close> for Python's \<^verbatim>\<open>None\<close>; the test \<^verbatim>\<open>if event_data:\<close>
  is false for \<^verbatim>\<open>None\<close> and for the empty dict. A raised \<^verbatim>\<open>ValueError\<close> is the
  result \<open>Inl\<close>; the new trace is a new value, the argument is not written to.
\<close>

definition transition_trace ::
  "real \<Rightarrow> real \<Rightarrow> Trace \<Rightarrow> trace_state \<Rightarrow> string \<Rightarrow> pydict option \<Rightarrow> exn + Trace" where
  "transition_trace t_log t_close trace new_state reason event_data =
     (if map_of allowed_transitions (state trace) = None then
        Inl (ValueError (''Cannot transition from state: '' @ state_name (state trace)))
      else if new_state \<notin> set (dict_get allowed_transitions (state trace) []) then
        Inl (ValueError (''Invalid transition: '' @ state_name (state trace) @ '' '' @ arrow
                          @ '' '' @ state_name new_state))
      else
        let new_log_entry =
              [(''event'', PyStr (''TRACE_'' @ state_name new_state)),
               (''trace_id'', PyStr (trace_id trace)),
               (''timestamp'', PyFloat t_log),
               (''reason'', PyStr reason)];
            new_log_entry =
              (case event_data of
                 None \<Rightarrow> new_log_entry
               | Some d \<Rightarrow> if d = [] then new_log_entry else dict_update new_log_entry d);
            new_lifecycle_log = lifecycle_log trace @ [new_log_entry];
            closed = (if new_state \<in> set [BLOCKED, COMPLETED, INVALID]
                      then Some t_close else closed_at trace)
        in Inr \<lparr> trace_id = trace_id trace,
                 state = new_state,
                 created_at = created_at trace,
                 closed_at = closed,
                 origin = origin trace,
                 trace_context = trace_context trace,
                 lifecycle_log = new_lifecycle_log \<rparr>)"

section \<open>Admission gate (gate/gate_policy.py, gate/decision_gate.py, bridge/kernel_bridge.py, gate/gatecore.py)\<close>

text \<open>
  The dataclass \<^verbatim>\<open>EnergeticState\<close> of gate/gatecore.py and runtime/main_loop.py: the two
  classes have the same eight fields, and the source converts one into the other field by
  field, which is the identity here.
\<close>

record EnergeticState =
  I :: real
  P :: real
  S :: real
  H :: real
  A :: real
  S_a :: real
  E_mu :: real
  theta :: real

text \<open>
  A policy configuration and a metrics dictionary are \<^verbatim>\<open>Dict[str, float]\<close>; a boolean
  entry such as \<^verbatim>\<open>rule_fail\<close> is the number \<open>1\<close> or \<open>0\<close>, as in Python.
\<close>

type_synonym config = "(string \<times> real) list"

type_synonym metrics = "(string \<times> real) list"

definition default_gate_config :: config where
  "default_gate_config =
     [(''H_threshold'', 0.85),
      (''D_traj_threshold'', 0.7),
      (''E_mu_restrict_min'', - 100),
      (''E_mu_restrict_max'', 100)]"

text \<open>\<^verbatim>\<open>GatePolicy.__init__\<close>: \<^verbatim>\<open>config or {...}\<close>; \<^verbatim>\<open>get_params\<close> returns the configuration.\<close>

definition GatePolicy :: "config option \<Rightarrow> config" where
  "GatePolicy cfg =
     (case cfg of
        None \<Rightarrow> default_gate_config
      | Some c \<Rightarrow> if c = [] then default_gate_config else c)"

text \<open>The ctypes structure \<^verbatim>\<open>DecisionParams\<close>.\<close>

record DecisionParams =
  rule_fail :: int
  E_mu_restrict_min :: real
  E_mu_restrict_max :: real
  H_threshold :: real
  D_traj_threshold :: real

text \<open>
  \<^verbatim>\<open>KernelBridge\<close>. Its attribute \<^verbatim>\<open>library\<close> is \<^verbatim>\<open>None\<close> until a compiled kernel
  library is loaded. Of a loaded library the model keeps the one function that
  \<^verbatim>\<open>decision_gate\<close> calls, \<^verbatim>\<open>cogman_decision_gate\<close>, with the signature that
  \<^verbatim>\<open>_setup_function_signatures\<close> declares for it: a pointer to \<^verbatim>\<open>DecisionParams\<close> and
  two doubles, returning an int.
\<close>

type_synonym kernel_library = "DecisionParams \<Rightarrow> real \<Rightarrow> real \<Rightarrow> int"

record KernelBridge =
  library :: "kernel_library option"

definition verdict_map :: "(int \<times> string) list" where
  "verdict_map = [(0, ''ALLOW''), (1, ''REVIEW''), (2, ''BLOCK'')]"

text \<open>\<^verbatim>\<open>KernelBridge.decision_gate\<close>\<close>

definition decision_gate :: "KernelBridge \<Rightarrow> config \<Rightarrow> real \<Rightarrow> real \<Rightarrow> exn + string" where
  "decision_gate bridge decision_params H_current D_traj_current =
     (case library bridge of
        None \<Rightarrow> Inl (RuntimeError ''Library not loaded'')
      | Some lib \<Rightarrow>
          let c_params =
                \<lparr> rule_fail = (if dict_get decision_params ''rule_fail'' 0 \<noteq> 0 then 1 else 0),
                  E_mu_restrict_min = dict_get decision_params ''E_mu_restrict_min'' (- (10 ^ 10)),
                  E_mu_restrict_max = dict_get decision_params ''E_mu_restrict_max'' (10 ^ 10),
                  H_threshold = dict_get decision_params ''H_threshold'' 0.85,
                  D_traj_threshold = dict_get decision_params ''D_traj_threshold'' 0.7 \<rparr>;
              verdict = lib c_params H_current D_traj_current
          in Inr (dict_get verdict_map verdict ''UNKNOWN''))"

text \<open>
  A decision gate as \<^verbatim>\<open>GateCore\<close> uses it: an object with a method \<^verbatim>\<open>decide\<close> and an
  attribute \<^verbatim>\<open>policy\<close>. The class \<^verbatim>\<open>DecisionGate\<close> is one such object, the dummy gates
  of the test suite are others.
\<close>

record decision_gate_object =
  decide :: "metrics \<Rightarrow> exn + string"
  policy :: config

text \<open>\<^verbatim>\<open>DecisionGate\<close> with its method \<^verbatim>\<open>decide\<close>.\<close>

definition DecisionGate :: "KernelBridge \<Rightarrow> config \<Rightarrow> decision_gate_object" where
  "DecisionGate kernel_bridge pol =
     \<lparr> decide = (\<lambda>st.
         let params = pol;
             H_current = dict_get st ''H'' 0;
             D_traj_current = dict_get st ''D_traj'' 0
         in decision_gate kernel_bridge params H_current D_traj_current),
       policy = pol \<rparr>"

text \<open>
  The dataclass \<^verbatim>\<open>GateCoreResult\<close>; its field \<^verbatim>\<open>trace_id\<close> is \<open>result_trace_id\<close> here.
\<close>

record GateCoreResult =
  verdict :: string
  reason :: string
  metrics :: metrics
  result_trace_id :: "string option"
  timestamp :: real

text \<open>
  \<^verbatim>\<open>GateCore\<close>: the decision gate and the list \<^verbatim>\<open>gate_trace.traces\<close>; its attribute
  \<^verbatim>\<open>context\<close> is \<open>gate_context\<close> here.
\<close>

record GateCore =
  gate_decision :: decision_gate_object
  gate_trace :: "pydict list"
  gate_context :: string

text \<open>
  How Python prints a float: \<open>fmt3\<close> is the format \<^verbatim>\<open>:.3f\<close>, \<open>fmt_str\<close> the default one.
  Both are parameters of the functions that build reason strings.
\<close>

record float_format =
  fmt3 :: "real \<Rightarrow> string"
  fmt_str :: "real \<Rightarrow> string"

text \<open>The letter mu, U+03BC, as its two UTF-8 bytes.\<close>

definition mu :: string where
  "mu = [CHR 0xCE, CHR 0xBC]"

text \<open>\<^verbatim>\<open>GateCore._calculate_trend\<close>\<close>

definition calculate_trend :: "real list \<Rightarrow> real" where
  "calculate_trend history =
     (if length history < 2 then 0
      else (last history - hd history) / real (length history))"

text \<open>\<^verbatim>\<open>GateCore._calculate_variance\<close>\<close>

definition calculate_variance :: "real list \<Rightarrow> real" where
  "calculate_variance history =
     (if length history < 2 then 0
      else
        let mean = sum_list history / real (length history)
        in sum_list (map (\<lambda>x. (x - mean) ^ 2) history) / real (length history))"

text \<open>\<^verbatim>\<open>GateCore._prepare_metrics\<close>\<close>

definition prepare_metrics :: "EnergeticState \<Rightarrow> real list option \<Rightarrow> metrics" where
  "prepare_metrics eps E_mu_history =
     [(''I'', I eps), (''P'', P eps), (''S'', S eps), (''H'', H eps),
      (''A'', A eps), (''S_a'', S_a eps), (''E_mu'', E_mu eps), (''theta'', theta eps),
      (''D_traj'', 0)]
     @ (case E_mu_history of
          None \<Rightarrow> [(''T'', 0), (''V'', 0)]
        | Some h \<Rightarrow>
            if h \<noteq> [] \<and> length h \<ge> 2
            then [(''T'', calculate_trend h), (''V'', calculate_variance h)]
            else [(''T'', 0), (''V'', 0)])"

text \<open>\<^verbatim>\<open>GateCore._is_E_mu_caution\<close>\<close>

definition is_E_mu_caution :: "real \<Rightarrow> config \<Rightarrow> bool" where
  "is_E_mu_caution e cfg =
     (let E_mu_caution_min = dict_get cfg ''E_mu_caution_min'' 15;
          E_mu_caution_max = dict_get cfg ''E_mu_caution_max'' 30
      in E_mu_caution_min \<le> e \<and> e < E_mu_caution_max)"

text \<open>
  Modelled from the spec: the kernel function \<^verbatim>\<open>cogman_decision_gate\<close> of the compiled
  C++ library, which bridge/kernel_bridge.py declares and calls and whose body is not
  among the sources. It is the verdict precedence of the specification (section 4.1),
  first match wins: the rule-failure flag set, or \<open>S = 0\<close>, blocks; \<open>E_mu\<close> below the
  ceiling of the restrict band blocks; entropy strictly above its threshold asks for
  review; drift strictly above its threshold asks for review; variance above its ceiling
  asks for review; a negative trend with \<open>E_mu\<close> in the caution band (lower bound
  inclusive, upper bound exclusive) asks for review; otherwise the state is allowed. The
  codes are 0 = ALLOW, 1 = REVIEW, 2 = BLOCK. The call of the bridge hands over the
  parameters, the entropy and the drift only. The precedence also reads \<open>S\<close>, \<open>E_mu\<close>,
  trend and variance of the state under evaluation, and the variance ceiling and the
  caution band of the configuration: \<open>m\<close> is the metrics dictionary of that state, \<open>cfg\<close>
  that configuration, read with the defaults of \<^verbatim>\<open>GateCore._determine_reason\<close>.
\<close>

definition cogman_decision_gate :: "metrics \<Rightarrow> config \<Rightarrow> kernel_library" where
  "cogman_decision_gate m cfg params H_current D_traj_current =
     (if rule_fail params \<noteq> 0 \<or> dict_get m ''S'' 0 = 0 then 2
      else if dict_get m ''E_mu'' 0 < E_mu_restrict_max params then 2
      else if H_current > H_threshold params then 1
      else if D_traj_current > D_traj_threshold params then 1
      else if dict_get m ''V'' 0 > dict_get cfg ''V_max'' 8 then 1
      else if dict_get m ''T'' 0 < 0 \<and> is_E_mu_caution (dict_get m ''E_mu'' 0) cfg then 1
      else 0)"

text \<open>\<^verbatim>\<open>metrics[key]\<close>, which raises \<^verbatim>\<open>KeyError\<close> on a missing key.\<close>

definition dict_index :: "(string \<times> 'v) list \<Rightarrow> string \<Rightarrow> exn + 'v" where
  "dict_index d key = (case map_of d key of None \<Rightarrow> Inl (KeyError key) | Some v \<Rightarrow> Inr v)"

text \<open>\<^verbatim>\<open>GateCore._determine_reason\<close>\<close>

definition determine_reason ::
  "float_format \<Rightarrow> GateCore \<Rightarrow> string \<Rightarrow> EnergeticState \<Rightarrow> metrics \<Rightarrow> exn + string" where
  "determine_reason ff gc v eps m =
     (let cfg = policy (gate_decision gc);
          H_thr = dict_get cfg ''H_threshold'' 0.85;
          D_thr = dict_get cfg ''D_traj_threshold'' 0.7;
          E_mu_max = dict_get cfg ''E_mu_restrict_max'' 15
      in if v = ''BLOCK'' then
           (if S eps = 0 then Inr ''Safety rule failed (S == 0)''
            else if E_mu eps < E_mu_max then
              Inr (''E'' @ mu @ '' in restrict range (E'' @ mu @ ''='' @ fmt3 ff (E_mu eps)
                   @ '' < '' @ fmt_str ff E_mu_max @ '')'')
            else Inr ''GateCore blocked (unknown reason)'')
         else if v = ''REVIEW'' then
           (if H eps > H_thr then
              Inr (''Entropy above threshold (H='' @ fmt3 ff (H eps) @ '' > ''
                   @ fmt_str ff H_thr @ '')'')
            else if dict_get m ''D_traj'' 0 > D_thr then
              (case dict_index m ''D_traj'' of
                 Inl e \<Rightarrow> Inl e
               | Inr d \<Rightarrow> Inr (''Semantic drift above threshold (D='' @ fmt3 ff d @ '' > ''
                                @ fmt_str ff D_thr @ '')''))
            else if dict_get m ''V'' 0 > dict_get cfg ''V_max'' 8 then
              (case dict_index m ''V'' of
                 Inl e \<Rightarrow> Inl e
               | Inr var \<Rightarrow> Inr (''Variance above threshold (V='' @ fmt3 ff var @ '')''))
            else if dict_get m ''T'' 0 < 0 \<and> is_E_mu_caution (E_mu eps) cfg then
              Inr (''Negative trend AND E'' @ mu @ '' in caution range'')
            else Inr ''GateCore review required'')
         else Inr ''All metrics within safety bounds'')"

text \<open>The dictionary of the eight fields that \<^verbatim>\<open>admit\<close> hands to the gate trace.\<close>

definition eps_dict :: "EnergeticState \<Rightarrow> pydict" where
  "eps_dict eps =
     [(''I'', PyFloat (I eps)), (''P'', PyFloat (P eps)), (''S'', PyFloat (S eps)),
      (''H'', PyFloat (H eps)), (''A'', PyFloat (A eps)), (''S_a'', PyFloat (S_a eps)),
      (''E_mu'', PyFloat (E_mu eps)), (''theta'', PyFloat (theta eps))]"

text \<open>\<^verbatim>\<open>GateTrace.trace\<close>; \<open>now\<close> is its reading of the clock.\<close>

definition gate_trace_trace :: "real \<Rightarrow> pydict list \<Rightarrow> string \<Rightarrow> pydict \<Rightarrow> string \<Rightarrow> pydict list" where
  "gate_trace_trace now traces decision st rsn =
     traces @ [[(''timestamp'', PyFloat now),
                (''decision'', PyStr decision),
                (''state'', PyDict st),
                (''reason'', PyStr rsn)]]"

text \<open>
  \<^verbatim>\<open>GateCore.admit\<close>. \<open>t_result\<close> is the clock reading stored in the result, \<open>t_trace\<close>
  the one of the gate trace. The result comes with the gate whose trace list has grown.
\<close>

definition admit ::
  "float_format \<Rightarrow> real \<Rightarrow> real \<Rightarrow> GateCore \<Rightarrow> EnergeticState \<Rightarrow> string option \<Rightarrow> real list option
     \<Rightarrow> exn + (GateCoreResult \<times> GateCore)" where
  "admit ff t_result t_trace gc eps tid E_mu_history =
     (let m = prepare_metrics eps E_mu_history
      in case decide (gate_decision gc) m of
           Inl e \<Rightarrow> Inl e
         | Inr v \<Rightarrow>
             (case determine_reason ff gc v eps m of
                Inl e \<Rightarrow> Inl e
              | Inr rsn \<Rightarrow>
                  let result = \<lparr> verdict = v, reason = rsn, metrics = m,
                                 result_trace_id = tid, timestamp = t_result \<rparr>;
                      traces = gate_trace_trace t_trace (gate_trace gc) v (eps_dict eps) rsn
                  in Inr (result, gc\<lparr> gate_trace := traces \<rparr>)))"

text \<open>The dictionary that \<^verbatim>\<open>evaluate_safety\<close> returns.\<close>

record safety_result =
  pass :: bool
  safety_S :: real
  safety_S_min :: real
  safety_reason :: string

text \<open>
  \<^verbatim>\<open>GateCore.evaluate_safety\<close>. The method reads the attribute \<^verbatim>\<open>S\<close> of its argument and
  nothing else, and the router calls it with a state of another class; \<open>s\<close> is that
  attribute.
\<close>

definition evaluate_safety :: "float_format \<Rightarrow> GateCore \<Rightarrow> real \<Rightarrow> safety_result" where
  "evaluate_safety ff gc s =
     (let cfg = policy (gate_decision gc);
          S_min = dict_get cfg ''S_min'' 0.5;
          safety_pass = (s \<ge> S_min)
      in \<lparr> pass = safety_pass,
           safety_S = s,
           safety_S_min = S_min,
           safety_reason =
             (if safety_pass then ''Safety gate passed''
              else ''S='' @ fmt3 ff s @ '' < S_min='' @ fmt_str ff S_min) \<rparr>)"

section \<open>Admission adapter (runtime/gatecore_adapter.py)\<close>

text \<open>
  What one admission reads from outside: the fresh identifier \<^verbatim>\<open>str(uuid.uuid4())\<close> and
  the clock, once in \<^verbatim>\<open>create_trace\<close>, twice in \<^verbatim>\<open>admit\<close> and twice in
  \<^verbatim>\<open>transition_trace\<close>.
\<close>

record admission_env =
  uuid :: string
  t_create :: real
  t_gate_result :: real
  t_gate_trace :: real
  t_log :: real
  t_close :: real

text \<open>A metrics dictionary as a value stored in a log entry.\<close>

definition metrics_val :: "metrics \<Rightarrow> pyval" where
  "metrics_val m = PyDict (map (\<lambda>(k, v). (k, PyFloat v)) m)"

text \<open>The payload \<^verbatim>\<open>{"gate_metrics": gate_result.metrics, "verdict": gate_result.verdict}\<close>.\<close>

definition gate_event_data :: "GateCoreResult \<Rightarrow> pydict" where
  "gate_event_data gate_result =
     [(''gate_metrics'', metrics_val (metrics gate_result)),
      (''verdict'', PyStr (verdict gate_result))]"

text \<open>
  \<^verbatim>\<open>GateCoreAdapter.admit_with_trace\<close>. An exception of the gate or of the transition
  leaves the function, as in the source, which has no handler.
\<close>

definition admit_with_trace ::
  "float_format \<Rightarrow> admission_env \<Rightarrow> GateCore \<Rightarrow> EnergeticState \<Rightarrow> pydict \<Rightarrow> pydict
     \<Rightarrow> real list option \<Rightarrow> exn + (Trace \<times> GateCoreResult \<times> GateCore)" where
  "admit_with_trace ff env gatecore eps origin_d context_d E_mu_history =
     (let trace = create_trace (uuid env) (t_create env) origin_d context_d;
          gate_eps = \<lparr> I = I eps, P = P eps, S = S eps, H = H eps, A = A eps,
                       S_a = S_a eps, E_mu = E_mu eps, theta = theta eps \<rparr>
      in case admit ff (t_gate_result env) (t_gate_trace env) gatecore gate_eps
                (Some (trace_id trace)) E_mu_history of
           Inl e \<Rightarrow> Inl e
         | Inr (gate_result, gatecore') \<Rightarrow>
             (case (if verdict gate_result = ''BLOCK''
                    then transition_trace (t_log env) (t_close env) trace BLOCKED
                           (reason gate_result) (Some (gate_event_data gate_result))
                    else transition_trace (t_log env) (t_close env) trace ACTIVE
                           (''GateCore '' @ verdict gate_result)
                           (Some (gate_event_data gate_result))) of
                Inl e \<Rightarrow> Inl e
              | Inr trace' \<Rightarrow> Inr (trace', gate_result, gatecore')))"

section \<open>Phase sequencer (runtime/main_loop.py)\<close>

text \<open>
  The dictionary that the admission phase returns. \<open>traj_metrics\<close> is \<open>None\<close> where the
  dictionary has no key \<^verbatim>\<open>metrics\<close>; \<open>traj_gate_result\<close> and \<open>traj_trace\<close> are \<open>None\<close>
  where the value is Python's \<^verbatim>\<open>None\<close>.
\<close>

record trajectory =
  traj_trace_id :: string
  traj_eps :: EnergeticState
  traj_verdict :: string
  traj_gate_result :: "GateCoreResult option"
  traj_metrics :: "metrics option"
  traj_trace :: "Trace option"

text \<open>
  \<^verbatim>\<open>TrajectoryBuilder\<close>: \<^verbatim>\<open>create_trace\<close> reads none of its attributes, and the
  sequencer only tests whether it has one.
\<close>

datatype TrajectoryBuilder = TrajectoryBuilder

definition default_origin :: pydict where
  "default_origin =
     [(''source_id'', PyStr ''runtime_loop''),
      (''modality'', PyStr ''text''),
      (''adapter'', PyStr ''default'')]"

definition default_context :: pydict where
  "default_context =
     [(''gate_profile'', PyStr ''default''),
      (''runtime_mode'', PyStr ''normal'')]"

text \<open>\<^verbatim>\<open>x or y\<close> on an optional string: \<^verbatim>\<open>None\<close> and the empty string are false.\<close>

definition str_or :: "string option \<Rightarrow> string \<Rightarrow> string" where
  "str_or x y = (case x of None \<Rightarrow> y | Some s \<Rightarrow> if s = [] then y else s)"

text \<open>
  \<^verbatim>\<open>RuntimeLoop._phase_trajectory_admission\<close>. The result \<open>Inr None\<close> is the returned
  \<^verbatim>\<open>None\<close> of a blocked trajectory. With a gate, the gate comes back with its trace list
  grown. \<open>uuid env\<close> is the one identifier a call draws: in \<^verbatim>\<open>create_trace\<close> when there
  is a trajectory builder, directly otherwise.
\<close>

definition phase_trajectory_admission ::
  "float_format \<Rightarrow> admission_env \<Rightarrow> GateCore option \<Rightarrow> TrajectoryBuilder option
     \<Rightarrow> EnergeticState \<Rightarrow> pydict option \<Rightarrow> pydict option
     \<Rightarrow> exn + (trajectory option \<times> GateCore option)" where
  "phase_trajectory_admission ff env gatecore trajectory_builder eps origin_opt context_opt =
     (let origin_d = (case origin_opt of None \<Rightarrow> default_origin | Some d \<Rightarrow> d);
          context_d = (case context_opt of None \<Rightarrow> default_context | Some d \<Rightarrow> d)
      in case gatecore of
           None \<Rightarrow>
             (case trajectory_builder of
                Some tb \<Rightarrow>
                  (let trace = create_trace (uuid env) (t_create env) origin_d context_d
                   in case transition_trace (t_log env) (t_close env) trace ACTIVE
                             ''No GateCore'' None of
                        Inl e \<Rightarrow> Inl e
                      | Inr trace' \<Rightarrow>
                          Inr (Some \<lparr> traj_trace_id = trace_id trace',
                                      traj_eps = eps,
                                      traj_verdict = ''ALLOW'',
                                      traj_gate_result = None,
                                      traj_metrics = None,
                                      traj_trace = Some trace' \<rparr>, None))
              | None \<Rightarrow>
                  Inr (Some \<lparr> traj_trace_id = uuid env,
                              traj_eps = eps,
                              traj_verdict = ''ALLOW'',
                              traj_gate_result = None,
                              traj_metrics = None,
                              traj_trace = None \<rparr>, None))
         | Some gc \<Rightarrow>
             (let gate_eps = \<lparr> I = I eps, P = P eps, S = S eps, H = H eps, A = A eps,
                              S_a = S_a eps, E_mu = E_mu eps, theta = theta eps \<rparr>;
                  trace = (case trajectory_builder of
                             Some tb \<Rightarrow> Some (create_trace (uuid env) (t_create env) origin_d context_d)
                           | None \<Rightarrow> None)
              in case admit ff (t_gate_result env) (t_gate_trace env) gc gate_eps
                        (map_option trace_id trace) None of
                   Inl e \<Rightarrow> Inl e
                 | Inr (gate_result, gc') \<Rightarrow>
                     (case (case trace of
                              None \<Rightarrow> Inr None
                            | Some tr \<Rightarrow>
                                map_sum id Some
                                  (if verdict gate_result = ''BLOCK''
                                   then transition_trace (t_log env) (t_close env) tr BLOCKED
                                          (reason gate_result) (Some (gate_event_data gate_result))
                                   else transition_trace (t_log env) (t_close env) tr ACTIVE
                                          (''GateCore '' @ verdict gate_result)
                                          (Some (gate_event_data gate_result)))) of
                        Inl e \<Rightarrow> Inl e
                      | Inr trace' \<Rightarrow>
                          if verdict gate_result = ''BLOCK'' then Inr (None, Some gc')
                          else
                            let tid = str_or (result_trace_id gate_result)
                                        (case trace' of Some tr \<Rightarrow> trace_id tr | None \<Rightarrow> uuid env)
                            in Inr (Some \<lparr> traj_trace_id = tid,
                                           traj_eps = eps,
                                           traj_verdict = verdict gate_result,
                                           traj_gate_result = Some gate_result,
                                           traj_metrics = Some (metrics gate_result),
                                           traj_trace = trace' \<rparr>, Some gc'))))"

subsection \<open>Error containment (runtime/error_handler.py)\<close>

datatype ErrorSeverity = LOW | MEDIUM | HIGH | CRITICAL

fun severity_value :: "ErrorSeverity \<Rightarrow> string" where
  "severity_value LOW = ''low''"
| "severity_value MEDIUM = ''medium''"
| "severity_value HIGH = ''high''"
| "severity_value CRITICAL = ''critical''"

record RuntimeErrorHandler =
  error_count :: nat
  error_history :: "pydict list"

text \<open>\<^verbatim>\<open>RuntimeErrorHandler.__init__\<close>\<close>

definition RuntimeErrorHandler_init :: RuntimeErrorHandler where
  "RuntimeErrorHandler_init = \<lparr> error_count = 0, error_history = [] \<rparr>"

text \<open>
  \<^verbatim>\<open>RuntimeErrorHandler.handle_error\<close>. \<open>tb\<close> is the text of
  \<^verbatim>\<open>traceback.format_exc()\<close>, \<open>now\<close> the clock reading. The calls of the logger leave
  no trace in the state and are not represented.
\<close>

definition handle_error ::
  "string \<Rightarrow> real \<Rightarrow> RuntimeErrorHandler \<Rightarrow> string \<Rightarrow> exn \<Rightarrow> pydict option \<Rightarrow> ErrorSeverity
     \<Rightarrow> pydict \<times> RuntimeErrorHandler" where
  "handle_error tb now h phase err ctx severity =
     (let error_info =
            [(''phase'', PyStr phase),
             (''error_type'', PyStr (exn_type_name err)),
             (''error_message'', PyStr (exn_message err)),
             (''severity'', PyStr (severity_value severity)),
             (''traceback'', PyStr tb),
             (''context'', PyDict (case ctx of None \<Rightarrow> [] | Some c \<Rightarrow> c)),
             (''timestamp'', PyFloat now)]
      in ([(''handled'', PyBool True),
           (''phase'', PyStr phase),
           (''error_type'', PyStr (exn_type_name err)),
           (''action'', PyStr ''abort_cycle''),
           (''continue'', PyBool True)],
          \<lparr> error_count = error_count h + 1,
            error_history = error_history h @ [error_info] \<rparr>))"

subsection \<open>The cycle and the run loop\<close>

datatype Phase =
    IDLE
  | INPUT_INTAKE
  | SENSORY_ADAPTATION
  | PERCEPTION_BOUNDARY
  | TRAJECTORY_ADMISSION
  | WORKING_MEMORY_CONTROL
  | REASONING
  | DECISION
  | ACTION_OUTPUT
  | POST_PROCESSING

fun phase_name :: "Phase \<Rightarrow> string" where
  "phase_name IDLE = ''IDLE''"
| "phase_name INPUT_INTAKE = ''INPUT_INTAKE''"
| "phase_name SENSORY_ADAPTATION = ''SENSORY_ADAPTATION''"
| "phase_name PERCEPTION_BOUNDARY = ''PERCEPTION_BOUNDARY''"
| "phase_name TRAJECTORY_ADMISSION = ''TRAJECTORY_ADMISSION''"
| "phase_name WORKING_MEMORY_CONTROL = ''WORKING_MEMORY_CONTROL''"
| "phase_name REASONING = ''REASONING''"
| "phase_name DECISION = ''DECISION''"
| "phase_name ACTION_OUTPUT = ''ACTION_OUTPUT''"
| "phase_name POST_PROCESSING = ''POST_PROCESSING''"

text \<open>The attributes of \<^verbatim>\<open>RuntimeLoop\<close> that \<^verbatim>\<open>run\<close> and \<^verbatim>\<open>_execute_cycle\<close> write.\<close>

record RuntimeLoop =
  running :: bool
  current_phase :: Phase
  system_state :: string

text \<open>
  What the sequencer calls. The ten phase handlers \<^verbatim>\<open>_phase_idle\<close>, ...,
  \<^verbatim>\<open>_phase_post_processing\<close> delegate to collaborators outside the core; each is given
  by its effect on the outside world \<open>'w\<close> and by its outcome, a value of Python's
  \<^verbatim>\<open>Any\<close> (the type \<open>'v\<close>) or a raised exception. None of them writes an attribute of
  the loop. The three accessors are the attribute reads of \<^verbatim>\<open>_execute_cycle\<close>:
  \<^verbatim>\<open>raw_input.source_id\<close>, \<^verbatim>\<open>origin.modality\<close> and \<^verbatim>\<open>trajectory.get("verdict")\<close>.
  \<open>time_time\<close> reads the clock and \<open>format_exc\<close> is \<^verbatim>\<open>traceback.format_exc()\<close>.
\<close>

record ('v, 'w) handlers =
  phase_idle :: "'w \<Rightarrow> (raised + 'v option) \<times> 'w"
  phase_input_intake :: "'v \<Rightarrow> 'w \<Rightarrow> (raised + 'v) \<times> 'w"
  phase_sensory_adaptation :: "'v \<Rightarrow> 'w \<Rightarrow> (raised + 'v) \<times> 'w"
  phase_perception_boundary :: "'v \<Rightarrow> 'w \<Rightarrow> (raised + 'v) \<times> 'w"
  phase_admission :: "'v \<Rightarrow> pydict \<Rightarrow> pydict \<Rightarrow> 'w \<Rightarrow> (raised + 'v option) \<times> 'w"
  phase_working_memory_control :: "'v \<Rightarrow> 'w \<Rightarrow> (raised + 'v) \<times> 'w"
  phase_reasoning :: "'v \<Rightarrow> 'w \<Rightarrow> (raised + 'v) \<times> 'w"
  phase_decision :: "'v \<Rightarrow> 'w \<Rightarrow> (raised + 'v) \<times> 'w"
  phase_action_output :: "'v \<Rightarrow> 'v \<Rightarrow> 'v \<Rightarrow> 'w \<Rightarrow> (raised + 'v) \<times> 'w"
  phase_post_processing :: "'v \<Rightarrow> 'v \<Rightarrow> pydict \<Rightarrow> 'w \<Rightarrow> (raised + unit) \<times> 'w"
  source_id_of :: "'v \<Rightarrow> pyval"
  modality_of :: "'v \<Rightarrow> pyval"
  verdict_of :: "'v \<Rightarrow> pyval"
  time_time :: "'w \<Rightarrow> real \<times> 'w"
  format_exc :: "exn \<Rightarrow> string"

text \<open>The dictionary \<^verbatim>\<open>phase_results\<close> of phase 9, with its four clock readings.\<close>

definition phase_results :: "pyval \<Rightarrow> real \<Rightarrow> real \<Rightarrow> real \<Rightarrow> real \<Rightarrow> pydict" where
  "phase_results gate_verdict t1 t2 t3 t4 =
     [(''phase_times'', PyDict []),
      (''gate_verdict'', gate_verdict),
      (''transformations'', PyList
         [PyDict [(''module'', PyStr ''perception''), (''timestamp'', PyFloat t1)],
          PyDict [(''module'', PyStr ''wm_controller''), (''timestamp'', PyFloat t2)],
          PyDict [(''module'', PyStr ''reasoning''), (''timestamp'', PyFloat t3)],
          PyDict [(''module'', PyStr ''action''), (''timestamp'', PyFloat t4)]])]"

text \<open>
  \<^verbatim>\<open>RuntimeLoop._execute_cycle\<close>. The result \<open>Inl e\<close> is the exception \<open>e\<close> leaving the
  method; the loop state it comes with has \<open>current_phase\<close> at the phase that raised.
\<close>

definition execute_cycle ::
  "('v, 'w) handlers \<Rightarrow> RuntimeLoop \<Rightarrow> 'w \<Rightarrow> (raised + unit) \<times> RuntimeLoop \<times> 'w" where
  "execute_cycle E loop w0 =
     (let loop = loop\<lparr> current_phase := IDLE \<rparr> in
      case phase_idle E w0 of
        (Inl e, w) \<Rightarrow> (Inl e, loop, w)
      | (Inr None, w) \<Rightarrow> (Inr (), loop, w)
      | (Inr (Some input_data), w) \<Rightarrow>
     (let loop = loop\<lparr> current_phase := INPUT_INTAKE \<rparr> in
      case phase_input_intake E input_data w of
        (Inl e, w) \<Rightarrow> (Inl e, loop, w)
      | (Inr raw_input, w) \<Rightarrow>
     (let loop = loop\<lparr> current_phase := SENSORY_ADAPTATION \<rparr> in
      case phase_sensory_adaptation E raw_input w of
        (Inl e, w) \<Rightarrow> (Inl e, loop, w)
      | (Inr origin_pack, w) \<Rightarrow>
     (let loop = loop\<lparr> current_phase := PERCEPTION_BOUNDARY \<rparr> in
      case phase_perception_boundary E origin_pack w of
        (Inl e, w) \<Rightarrow> (Inl e, loop, w)
      | (Inr eps, w) \<Rightarrow>
     (let loop = loop\<lparr> current_phase := TRAJECTORY_ADMISSION \<rparr>;
          origin_info = [(''source_id'', source_id_of E raw_input),
                         (''modality'', modality_of E origin_pack),
                         (''adapter'', PyStr ''sensory'')];
          context_info = [(''gate_profile'', PyStr ''default''),
                          (''runtime_mode'', PyStr ''normal'')] in
      case phase_admission E eps origin_info context_info w of
        (Inl e, w) \<Rightarrow> (Inl e, loop, w)
      | (Inr None, w) \<Rightarrow> (Inr (), loop, w)
      | (Inr (Some traj), w) \<Rightarrow>
     (let loop = loop\<lparr> current_phase := WORKING_MEMORY_CONTROL \<rparr> in
      case phase_working_memory_control E traj w of
        (Inl e, w) \<Rightarrow> (Inl e, loop, w)
      | (Inr wm_output, w) \<Rightarrow>
     (let loop = loop\<lparr> current_phase := REASONING \<rparr> in
      case phase_reasoning E wm_output w of
        (Inl e, w) \<Rightarrow> (Inl e, loop, w)
      | (Inr reasoning_output, w) \<Rightarrow>
     (let loop = loop\<lparr> current_phase := DECISION \<rparr> in
      case phase_decision E reasoning_output w of
        (Inl e, w) \<Rightarrow> (Inl e, loop, w)
      | (Inr dec, w) \<Rightarrow>
     (let loop = loop\<lparr> current_phase := ACTION_OUTPUT \<rparr> in
      case phase_action_output E dec traj reasoning_output w of
        (Inl e, w) \<Rightarrow> (Inl e, loop, w)
      | (Inr action_output, w) \<Rightarrow>
     (let loop = loop\<lparr> current_phase := POST_PROCESSING \<rparr>;
          gate_verdict = verdict_of E traj;
          (t1, w) = time_time E w;
          (t2, w) = time_time E w;
          (t3, w) = time_time E w;
          (t4, w) = time_time E w in
      case phase_post_processing E traj action_output
             (phase_results gate_verdict t1 t2 t3 t4) w of
        (Inl e, w) \<Rightarrow> (Inl e, loop, w)
      | (Inr u, w) \<Rightarrow> (Inr (), loop, w)))))))))))"

text \<open>
  The body of the loop of \<^verbatim>\<open>RuntimeLoop.run\<close>: one cycle inside \<^verbatim>\<open>try\<close>, and the
  handler \<^verbatim>\<open>except Exception\<close>. The handler matches the instances of \<^verbatim>\<open>Exception\<close>:
  it records the exception and the body ends normally, which is the \<^verbatim>\<open>continue\<close>. Any
  other exception is not matched and leaves the body, the result \<open>Inl\<close>.
  \<open>error_handler\<close> is \<open>None\<close> when the import of the error handler failed; then the
  exception is only logged.
\<close>

definition run_iteration ::
  "('v, 'w) handlers \<Rightarrow> RuntimeLoop \<times> RuntimeErrorHandler option \<times> 'w
     \<Rightarrow> (raised + unit) \<times> RuntimeLoop \<times> RuntimeErrorHandler option \<times> 'w" where
  "run_iteration E st =
     (case st of (loop, error_handler, w) \<Rightarrow>
        (case execute_cycle E loop w of
           (Inr u, loop', w') \<Rightarrow> (Inr (), loop', error_handler, w')
         | (Inl (Exc e), loop', w') \<Rightarrow>
             (case error_handler of
                None \<Rightarrow> (Inr (), loop', None, w')
              | Some h \<Rightarrow>
                  let (now, w'') = time_time E w';
                      (error_result, h') =
                        handle_error (format_exc E e) now h (phase_name (current_phase loop')) e
                          (Some [(''system_state'', PyStr (system_state loop'))]) HIGH
                  in (Inr (), loop', Some h', w''))
         | (Inl (BaseExc c), loop', w') \<Rightarrow> (Inl (BaseExc c), loop', error_handler, w')))"

text \<open>\<^verbatim>\<open>RuntimeLoop.stop\<close>\<close>

definition stop :: "RuntimeLoop \<Rightarrow> RuntimeLoop" where
  "stop loop = loop\<lparr> running := False \<rparr>"

text \<open>
  The loop \<^verbatim>\<open>while self.running\<close> of \<^verbatim>\<open>run\<close>. Nothing in the loop clears the flag: only
  \<^verbatim>\<open>stop\<close> does, called from another thread. \<open>stops k\<close> says that such a call arrived
  during iteration \<open>k\<close>. The loop may run for ever; \<open>fuel\<close> bounds the iterations, and the
  result \<open>None\<close> is a loop still running when the fuel is spent. The result
  \<open>Some (Inr (), st)\<close> is the loop left with the flag false, in the state \<open>st\<close>; the result
  \<open>Some (Inl r, st)\<close> is the exception \<open>r\<close> leaving the loop, and with it \<^verbatim>\<open>run\<close>, in
  the state \<open>st\<close>.
\<close>

fun while_running ::
  "nat \<Rightarrow> ('v, 'w) handlers \<Rightarrow> (nat \<Rightarrow> bool) \<Rightarrow> nat
     \<Rightarrow> RuntimeLoop \<times> RuntimeErrorHandler option \<times> 'w
     \<Rightarrow> ((raised + unit) \<times> RuntimeLoop \<times> RuntimeErrorHandler option \<times> 'w) option" where
  "while_running 0 E stops k st = (if running (fst st) then None else Some (Inr (), st))"
| "while_running (Suc fuel) E stops k st =
     (if running (fst st) then
        (case run_iteration E st of
           (Inl r, loop', rest) \<Rightarrow> Some (Inl r, if stops k then stop loop' else loop', rest)
         | (Inr u, loop', rest) \<Rightarrow>
             while_running fuel E stops (Suc k) (if stops k then stop loop' else loop', rest))
      else Some (Inr (), st))"

text \<open>
  \<^verbatim>\<open>RuntimeLoop.run\<close>. \<open>import_ok\<close> says that the import of the error handler inside
  \<^verbatim>\<open>run\<close> succeeded.
\<close>

definition run ::
  "nat \<Rightarrow> ('v, 'w) handlers \<Rightarrow> (nat \<Rightarrow> bool) \<Rightarrow> bool \<Rightarrow> RuntimeLoop \<Rightarrow> 'w
     \<Rightarrow> ((raised + unit) \<times> RuntimeLoop \<times> RuntimeErrorHandler option \<times> 'w) option" where
  "run fuel E stops import_ok loop w =
     while_running fuel E stops 0
       (loop\<lparr> running := True \<rparr>,
        (if import_ok then Some RuntimeErrorHandler_init else None),
        w)"

section \<open>Working-memory router (runtime/wm_controller.py)\<close>

text \<open>The dataclass \<^verbatim>\<open>EPS8State\<close> of the router.\<close>

record EPS8State =
  I :: real
  P :: real
  S :: real
  H :: real
  F :: real
  A :: real
  S_a :: real
  theta :: real

text \<open>
  The router's dataclass \<^verbatim>\<open>Trajectory\<close>; the fields \<^verbatim>\<open>states\<close>, \<^verbatim>\<open>trace_id\<close> and
  \<^verbatim>\<open>timestamp\<close> carry the prefix \<open>wm_\<close> here.
\<close>

record Trajectory =
  wm_states :: "EPS8State list"
  wm_trace_id :: string
  source_modality :: string
  wm_timestamp :: real
  debug_lineage :: pydict

text \<open>
  The dataclass \<^verbatim>\<open>WMControllerOutput\<close>; the fields \<^verbatim>\<open>trajectory\<close>, \<^verbatim>\<open>trace_id\<close> and
  \<^verbatim>\<open>timestamp\<close> carry the prefix \<open>out_\<close> here.
\<close>

record WMControllerOutput =
  out_trajectory :: Trajectory
  navigation_decision :: string
  modulated_eps8 :: EPS8State
  resonance_scores :: "(string \<times> real) list"
  gate_status :: "(string \<times> bool) list"
  out_trace_id :: string
  out_timestamp :: real

text \<open>
  A memory field is an object that may have a method \<^verbatim>\<open>query_resonance(state, trace_id)\<close>,
  which returns a score or raises.
\<close>

datatype memory_field = MemoryField "(EPS8State \<Rightarrow> string \<Rightarrow> exn + real) option"

text \<open>
  \<^verbatim>\<open>WMController\<close>. A value \<open>None\<close> in \<open>memory_fields\<close> is a field name bound to
  Python's \<^verbatim>\<open>None\<close>.
\<close>

record WMController =
  gatecore :: "GateCore option"
  memory_fields :: "(string \<times> memory_field option) list"
  wm_config :: config
  H_max :: real
  S_min :: real
  budget_max :: real

text \<open>\<^verbatim>\<open>WMController.__init__\<close>\<close>

definition WMController_init ::
  "GateCore option \<Rightarrow> (string \<times> memory_field option) list option \<Rightarrow> config option \<Rightarrow> WMController" where
  "WMController_init gc mem cfg =
     (let c = (case cfg of None \<Rightarrow> [] | Some c \<Rightarrow> c)
      in \<lparr> gatecore = gc,
           memory_fields = (case mem of None \<Rightarrow> [] | Some f \<Rightarrow> f),
           wm_config = c,
           H_max = dict_get c ''H_max'' 0.62,
           S_min = dict_get c ''S_min'' 0.5,
           budget_max = dict_get c ''budget_max'' 100 \<rparr>)"

text \<open>
  The trajectory dictionary that \<^verbatim>\<open>process\<close> receives; a field is \<open>None\<close> where the
  dictionary has no such key. The value under \<^verbatim>\<open>eps\<close> is a dictionary of floats.
\<close>

record trajectory_dict =
  td_eps :: "(string \<times> real) list option"
  td_trace_id :: "string option"
  td_source_modality :: "string option"
  td_timestamp :: "real option"
  td_debug_lineage :: "pydict option"

text \<open>\<^verbatim>\<open>WMController._dict_to_trajectory\<close>; \<open>now\<close> is the clock reading of the default timestamp.\<close>

definition dict_to_trajectory :: "real \<Rightarrow> trajectory_dict \<Rightarrow> Trajectory" where
  "dict_to_trajectory now traj_dict =
     \<lparr> wm_states =
         (case td_eps traj_dict of
            None \<Rightarrow> []
          | Some eps \<Rightarrow>
              [\<lparr> I = dict_get eps ''I'' 0, P = dict_get eps ''P'' 0, S = dict_get eps ''S'' 0,
                 H = dict_get eps ''H'' 0, F = dict_get eps ''F'' 0, A = dict_get eps ''A'' 0,
                 S_a = dict_get eps ''S_a'' 0, theta = dict_get eps ''theta'' 0 \<rparr>]),
       wm_trace_id = (case td_trace_id traj_dict of None \<Rightarrow> [] | Some t \<Rightarrow> t),
       source_modality = (case td_source_modality traj_dict of None \<Rightarrow> ''text'' | Some m \<Rightarrow> m),
       wm_timestamp = (case td_timestamp traj_dict of None \<Rightarrow> now | Some t \<Rightarrow> t),
       debug_lineage = (case td_debug_lineage traj_dict of None \<Rightarrow> [] | Some d \<Rightarrow> d) \<rparr>"

text \<open>\<^verbatim>\<open>WMController._create_default_state\<close>\<close>

definition create_default_state :: EPS8State where
  "create_default_state =
     \<lparr> I = 0, P = 0, S = 0, H = 0, F = 0, A = 0, S_a = 0, theta = 0 \<rparr>"

text \<open>\<^verbatim>\<open>WMController._gate_control\<close>\<close>

definition gate_control :: "float_format \<Rightarrow> WMController \<Rightarrow> EPS8State \<Rightarrow> (string \<times> bool) list" where
  "gate_control ff ctrl st =
     (let status = [(''entropy'', True), (''safety'', True), (''budget'', True)];
          status = (if H st > H_max ctrl then AList.update ''entropy'' False status else status);
          status =
            (case gatecore ctrl of
               Some gc \<Rightarrow> AList.update ''safety'' (pass (evaluate_safety ff gc (S st))) status
             | None \<Rightarrow>
                 if S st < S_min ctrl then AList.update ''safety'' False status else status);
          status = AList.update ''budget'' True status
      in status)"

text \<open>\<^verbatim>\<open>all(gate_status.values())\<close>\<close>

definition all_values :: "(string \<times> bool) list \<Rightarrow> bool" where
  "all_values status = list_all (\<lambda>b. b) (map snd status)"

text \<open>
  \<^verbatim>\<open>WMController._invoke_memory_resonance\<close>: the loop over the fields, the scores
  collected so far as accumulator. The state handed to a field has the same eight values
  whether or not the import of the memory module's state class succeeds; the trace id
  handed over is the empty string.
\<close>

fun resonance_loop ::
  "(string \<times> memory_field option) list \<Rightarrow> EPS8State \<Rightarrow> (string \<times> real) list \<Rightarrow> (string \<times> real) list" where
  "resonance_loop [] st scores = scores"
| "resonance_loop ((field_name, None) # rest) st scores = resonance_loop rest st scores"
| "resonance_loop ((field_name, Some (MemoryField None)) # rest) st scores =
     resonance_loop rest st (AList.update field_name 0 scores)"
| "resonance_loop ((field_name, Some (MemoryField (Some query_resonance))) # rest) st scores =
     (case query_resonance st [] of
        Inr score \<Rightarrow> resonance_loop rest st (AList.update field_name score scores)
      | Inl e \<Rightarrow> resonance_loop rest st (AList.update field_name 0 scores))"

definition invoke_memory_resonance :: "WMController \<Rightarrow> EPS8State \<Rightarrow> (string \<times> real) list" where
  "invoke_memory_resonance ctrl st =
     (if memory_fields ctrl = [] then [] else resonance_loop (memory_fields ctrl) st [])"

text \<open>\<^verbatim>\<open>WMController._context_modulation\<close>\<close>

definition context_modulation :: "EPS8State \<Rightarrow> (string \<times> real) list \<Rightarrow> EPS8State" where
  "context_modulation st scores =
     (let modulation_factor = 1;
          episodic_resonance = dict_get scores ''episodic'' 0;
          modulation_factor = (if episodic_resonance > 0.7 then 1.1 else modulation_factor);
          semantic_resonance = dict_get scores ''semantic'' 0;
          modulation_factor = (if semantic_resonance > 0.8 then 1.05 else modulation_factor)
      in \<lparr> I = I st * modulation_factor,
           P = P st,
           S = min (if semantic_resonance > 0.8 then S st * 1.05 else S st) 1,
           H = H st,
           F = F st,
           A = A st,
           S_a = S_a st,
           theta = theta st \<rparr>)"

text \<open>\<^verbatim>\<open>WMController._navigation_decision\<close>\<close>

definition navigation_decision_of ::
  "EPS8State \<Rightarrow> (string \<times> real) list \<Rightarrow> EPS8State \<Rightarrow> string" where
  "navigation_decision_of st scores modulated =
     (let episodic_resonance = dict_get scores ''episodic'' 0 in
      if episodic_resonance > 0.7 then ''EXTEND_PATH''
      else
        let semantic_resonance = dict_get scores ''semantic'' 0 in
        if semantic_resonance > 0.8 then ''RECALL_SN''
        else if I modulated > 0.8 \<and> S modulated > 0.7 then ''TRIGGER_ACTION''
        else if H modulated < 0.2 then ''ACTIVATE_REFLEX''
        else ''CREATE_NEW_SN'')"

text \<open>
  \<^verbatim>\<open>WMController.process\<close>. \<open>t_default\<close> is the clock reading of
  \<^verbatim>\<open>_dict_to_trajectory\<close>, \<open>t_out\<close> the one stored in the output.
\<close>

definition process ::
  "float_format \<Rightarrow> real \<Rightarrow> real \<Rightarrow> WMController \<Rightarrow> trajectory_dict \<Rightarrow> WMControllerOutput" where
  "process ff t_default t_out ctrl traj_dict =
     (let traj = dict_to_trajectory t_default traj_dict;
          current_state = (if wm_states traj \<noteq> [] then last (wm_states traj)
                           else create_default_state);
          status = gate_control ff ctrl current_state
      in if \<not> all_values status then
           \<lparr> out_trajectory = traj,
             navigation_decision = ''BLOCKED'',
             modulated_eps8 = current_state,
             resonance_scores = [],
             gate_status = status,
             out_trace_id = wm_trace_id traj,
             out_timestamp = t_out \<rparr>
         else
           let scores = invoke_memory_resonance ctrl current_state;
               modulated = context_modulation current_state scores;
               decision = navigation_decision_of current_state scores modulated;
               traj = traj\<lparr> wm_states := wm_states traj @ [modulated] \<rparr>
           in \<lparr> out_trajectory = traj,
                navigation_decision = decision,
                modulated_eps8 = modulated,
                resonance_scores = scores,
                gate_status = status,
                out_trace_id = wm_trace_id traj,
                out_timestamp = t_out \<rparr>)"

section \<open>Example values\<close>

text \<open>A trace as \<^verbatim>\<open>create_trace\<close> makes it, with identifier \<open>t\<close> at time \<open>0\<close>.\<close>

definition created_example :: Trace where
  "created_example = create_trace ''t'' 0 [] []"

text \<open>The same trace after a transition to \<open>BLOCKED\<close> at the clock readings \<open>1\<close> and \<open>2\<close>.\<close>

definition blocked_example :: Trace where
  "blocked_example =
     \<lparr> trace_id = ''t'', state = BLOCKED, created_at = 0, closed_at = Some 2,
       origin = [], trace_context = [],
       lifecycle_log =
         [[(''event'', PyStr ''TRACE_CREATED''), (''trace_id'', PyStr ''t''),
           (''source'', PyStr ''unknown''), (''modality'', PyStr ''text''),
           (''timestamp'', PyFloat 0)],
          [(''event'', PyStr ''TRACE_BLOCKED''), (''trace_id'', PyStr ''t''),
           (''timestamp'', PyFloat 1), (''reason'', PyStr ''gate'')]] \<rparr>"

text \<open>A payload that names the four core keys of a log entry.\<close>

definition forged_payload :: pydict where
  "forged_payload =
     [(''event'', PyStr ''FORGED''),
      (''timestamp'', PyFloat (- 1)),
      (''reason'', PyStr ''none''),
      (''trace_id'', PyStr ''other'')]"

text \<open>A float format for the examples; the reason strings are not looked at.\<close>

definition example_format :: float_format where
  "example_format = \<lparr> fmt3 = (\<lambda>x. ''?''), fmt_str = (\<lambda>x. ''?'') \<rparr>"

definition example_env :: admission_env where
  "example_env =
     \<lparr> uuid = ''u-1'', t_create = 10, t_gate_result = 11, t_gate_trace = 12,
       t_log = 13, t_close = 14 \<rparr>"

text \<open>The state of the test suite, and the same state with \<open>S = 0\<close>.\<close>

definition example_eps :: EnergeticState where
  "example_eps =
     \<lparr> EnergeticState.I = 0.7, P = 0.6, S = 0.8, H = 0.3, A = 0.5, S_a = 0.4,
       E_mu = 50, theta = 1.2 \<rparr>"

definition unstable_eps :: EnergeticState where
  "unstable_eps =
     \<lparr> EnergeticState.I = 0.7, P = 0.6, S = 0, H = 0.3, A = 0.5, S_a = 0.4,
       E_mu = 50, theta = 1.2 \<rparr>"



text \<open>
  The class \<^verbatim>\<open>DummyDecisionGate\<close> of tests/runtime/test_gate_integration.py, the decision
  gate of the test suite.
\<close>

definition DummyDecisionGate :: "config \<Rightarrow> decision_gate_object" where
  "DummyDecisionGate pol =
     \<lparr> decide = (\<lambda>st.
         let h = dict_get st ''H'' 0;
             s = dict_get st ''S'' 1
         in if s = 0 then Inr ''BLOCK''
            else if h > 0.85 then Inr ''REVIEW''
            else Inr ''ALLOW''),
       policy = pol \<rparr>"

definition dummy_gatecore :: GateCore where
  "dummy_gatecore =
     \<lparr> gate_decision = DummyDecisionGate (GatePolicy None),
       gate_trace = [],
       gate_context = ''test'' \<rparr>"


text \<open>Router inputs: a calm state, one with entropy above the ceiling, two strong memory fields.\<close>

definition calm_trajectory :: trajectory_dict where
  "calm_trajectory =
     \<lparr> td_eps = Some [(''I'', 0.7), (''P'', 0.6), (''S'', 0.8), (''H'', 0.3),
                       (''F'', 0), (''A'', 0.5), (''S_a'', 0.4), (''theta'', 1.2)],
       td_trace_id = Some ''u-1'',
       td_source_modality = None,
       td_timestamp = None,
       td_debug_lineage = None \<rparr>"

definition noisy_trajectory :: trajectory_dict where
  "noisy_trajectory =
     \<lparr> td_eps = Some [(''I'', 0.7), (''P'', 0.6), (''S'', 0.8), (''H'', 0.9),
                       (''F'', 0), (''A'', 0.5), (''S_a'', 0.4), (''theta'', 1.2)],
       td_trace_id = Some ''u-2'',
       td_source_modality = None,
       td_timestamp = None,
       td_debug_lineage = None \<rparr>"

definition calm_state :: EPS8State where
  "calm_state = \<lparr> I = 0.7, P = 0.6, S = 0.8, H = 0.3, F = 0, A = 0.5, S_a = 0.4, theta = 1.2 \<rparr>"

definition strong_fields :: "(string \<times> memory_field option) list" where
  "strong_fields =
     [(''episodic'', Some (MemoryField (Some (\<lambda>st tid. Inr 0.9)))),
      (''semantic'', Some (MemoryField (Some (\<lambda>st tid. Inr 0.9))))]"

text \<open>Handlers of which the perception phase raises; the world counts the inputs taken.\<close>

definition faulty_handlers :: "(nat, nat) handlers" where
  "faulty_handlers =
     \<lparr> phase_idle = (\<lambda>w. (Inr (Some w), Suc w)),
       phase_input_intake = (\<lambda>x w. (Inr x, w)),
       phase_sensory_adaptation = (\<lambda>x w. (Inr x, w)),
       phase_perception_boundary =
         (\<lambda>x w. (Inl (Exc (Exception ''ZeroDivisionError'' ''float division by zero'')), w)),
       phase_admission = (\<lambda>x od cd w. (Inr (Some x), w)),
       phase_working_memory_control = (\<lambda>x w. (Inr x, w)),
       phase_reasoning = (\<lambda>x w. (Inr x, w)),
       phase_decision = (\<lambda>x w. (Inr x, w)),
       phase_action_output = (\<lambda>x y z w. (Inr x, w)),
       phase_post_processing = (\<lambda>x y r w. (Inr (), w)),
       source_id_of = (\<lambda>x. PyStr ''external''),
       modality_of = (\<lambda>x. PyStr ''text''),
       verdict_of = (\<lambda>x. PyStr ''ALLOW''),
       time_time = (\<lambda>w. (real w, w)),
       format_exc = (\<lambda>e. ''Traceback'') \<rparr>"

text \<open>The loop as \<^verbatim>\<open>RuntimeLoop.__init__\<close> leaves it.\<close>

definition idle_loop :: RuntimeLoop where
  "idle_loop = \<lparr> running = False, current_phase = IDLE, system_state = ''running'' \<rparr>"

text \<open>The same handlers, of which the perception phase is interrupted from the keyboard.\<close>

definition interrupted_handlers :: "(nat, nat) handlers" where
  "interrupted_handlers =
     faulty_handlers
       \<lparr> phase_perception_boundary := (\<lambda>x w. (Inl (BaseExc ''KeyboardInterrupt''), w)) \<rparr>"

text \<open>Two schedules of \<^verbatim>\<open>stop\<close>: no call at all, and one call during the second iteration.\<close>

definition never_stopped :: "nat \<Rightarrow> bool" where
  "never_stopped k = False"

definition stopped_in_second :: "nat \<Rightarrow> bool" where
  "stopped_in_second k = (k = 1)"

section \<open>Properties of the trace lifecycle\<close>

text \<open>
  On well-formed dictionaries (no key twice) an update is the right-biased union of the
  two lookups.
\<close>

lemma map_of_dict_update:
  "distinct (map fst other) \<Longrightarrow> map_of (dict_update d other) = map_of d ++ map_of other"
  unfolding dict_update_def
proof (induction other arbitrary: d)
  case Nil
  then show ?case by simp
next
  case (Cons p ps)
  obtain k v where p: "p = (k, v)" by (cases p)
  from Cons.prems have d: "distinct (map fst ps)" and nk: "k \<notin> fst ` set ps"
    by (auto simp: p)
  have none: "map_of ps k = None" using nk by (simp add: map_of_eq_None_iff)
  have swap: "(map_of d)(k \<mapsto> v) ++ map_of ps = map_of d ++ (map_of ps)(k \<mapsto> v)"
  proof (rule ext)
    fix x
    show "((map_of d)(k \<mapsto> v) ++ map_of ps) x = (map_of d ++ (map_of ps)(k \<mapsto> v)) x"
      using none by (cases "x = k") (simp_all add: map_add_def split: option.splits)
  qed
  have "map_of (fold (\<lambda>(k, v) acc. AList.update k v acc) (p # ps) d)
        = map_of (fold (\<lambda>(k, v) acc. AList.update k v acc) ps (AList.update k v d))"
    by (simp add: p)
  also have "\<dots> = map_of (AList.update k v d) ++ map_of ps"
    by (rule Cons.IH[OF d])
  also have "\<dots> = (map_of d)(k \<mapsto> v) ++ map_of ps"
    by (simp only: update_conv')
  also have "\<dots> = map_of d ++ (map_of ps)(k \<mapsto> v)"
    by (rule swap)
  also have "\<dots> = map_of d ++ map_of (p # ps)"
    by (simp only: p map_of.simps fst_conv snd_conv)
  finally show ?case .
qed

text \<open>The two tests of \<^verbatim>\<open>transition_trace\<close> pass on exactly six edges.\<close>

lemma allowed_edge_iff:
  "(map_of allowed_transitions s \<noteq> None \<and> ns \<in> set (dict_get allowed_transitions s []))
   \<longleftrightarrow> (s, ns) \<in> {(CREATED, ACTIVE), (CREATED, BLOCKED), (ACTIVE, BLOCKED),
                    (ACTIVE, COMPLETED), (BLOCKED, INVALID), (COMPLETED, ARCHIVED)}"
  by (cases s) (auto simp: allowed_transitions_def dict_get_def)

text \<open>The log entry that a transition builds before the payload is merged in.\<close>

lemma transition_trace_Inr:
  assumes "transition_trace t1 t2 tr ns r ed = Inr tr'"
  shows "tr' = \<lparr> trace_id = trace_id tr, state = ns, created_at = created_at tr,
                 closed_at = (if ns \<in> {BLOCKED, COMPLETED, INVALID} then Some t2 else closed_at tr),
                 origin = origin tr, trace_context = trace_context tr,
                 lifecycle_log = lifecycle_log tr @
                   [case ed of
                      None \<Rightarrow> [(''event'', PyStr (''TRACE_'' @ state_name ns)),
                               (''trace_id'', PyStr (trace_id tr)),
                               (''timestamp'', PyFloat t1),
                               (''reason'', PyStr r)]
                    | Some d \<Rightarrow> dict_update
                               [(''event'', PyStr (''TRACE_'' @ state_name ns)),
                                (''trace_id'', PyStr (trace_id tr)),
                                (''timestamp'', PyFloat t1),
                                (''reason'', PyStr r)] d] \<rparr>"
proof -
  from assms have ok: "map_of allowed_transitions (state tr) \<noteq> None"
    "ns \<in> set (dict_get allowed_transitions (state tr) [])"
    by (auto simp: transition_trace_def split: if_splits)
  have empty: "dict_update e [] = e" for e :: pydict
    by (simp add: dict_update_def)
  show ?thesis
  proof (cases ed)
    case None
    with assms ok show ?thesis by (simp add: transition_trace_def Let_def)
  next
    case (Some d)
    with assms ok show ?thesis
      by (cases "d = []") (simp_all add: transition_trace_def Let_def empty)
  qed
qed

lemma transition_trace_allowed:
  assumes "(state tr, ns) \<in> {(CREATED, ACTIVE), (CREATED, BLOCKED), (ACTIVE, BLOCKED),
                    (ACTIVE, COMPLETED), (BLOCKED, INVALID), (COMPLETED, ARCHIVED)}"
  shows "\<exists>tr'. transition_trace t1 t2 tr ns r ed = Inr tr'"
  using assms allowed_edge_iff[of "state tr" ns]
  by (simp add: transition_trace_def Let_def)

lemma blocked_example_eq:
  "transition_trace 1 2 created_example BLOCKED ''gate'' None = Inr blocked_example"
  by (simp add: transition_trace_def created_example_def create_trace_def blocked_example_def
      allowed_transitions_def dict_get_def)

text \<open>
  Claim C3, as stated: the closure timestamp \<open>closed_at\<close> is set exactly once and is never
  overwritten by a later transition, in particular not by the edge from \<open>BLOCKED\<close> to
  \<open>INVALID\<close>. The source assigns \<open>closed_at\<close> whenever the target state is \<open>BLOCKED\<close>,
  \<open>COMPLETED\<close> or \<open>INVALID\<close>, without looking at the old value. The trace blocked at
  clock reading \<open>2\<close> and invalidated at clock reading \<open>4\<close> has its timestamp replaced.
\<close>

theorem closed_at_overwritten_counterexample:
  "closed_at blocked_example = Some 2 \<and>
   map_sum id closed_at (transition_trace 3 4 blocked_example INVALID ''late'' None)
     = Inr (Some 4)"
  by (simp add: transition_trace_def blocked_example_def allowed_transitions_def dict_get_def)

text \<open>
  Claim C3, amended: a successful transition assigns \<open>closed_at\<close> the clock reading of
  that transition when its target state is \<open>BLOCKED\<close>, \<open>COMPLETED\<close> or \<open>INVALID\<close>, whether
  or not it was set before, and leaves \<open>closed_at\<close> as it was when the target state is any
  other.
\<close>

theorem closed_at_after_transition:
  assumes "transition_trace t1 t2 tr ns r ed = Inr tr'"
  shows "closed_at tr' = (if ns \<in> {BLOCKED, COMPLETED, INVALID} then Some t2 else closed_at tr)"
  using transition_trace_Inr[OF assms] by simp

theorem closed_at_after_transition_witness:
  "transition_trace 1 2 created_example BLOCKED ''gate'' None = Inr blocked_example \<and>
   closed_at blocked_example = Some 2"
  using closed_at_after_transition[OF blocked_example_eq] blocked_example_eq by simp

text \<open>
  Claim C4: a transition along any edge other than the six allowed ones fails with the
  invalid-transition error, a \<^verbatim>\<open>ValueError\<close>. The failure is raised before anything is
  built: no new trace comes back, and the trace handed in, an immutable value, is as it
  was.
\<close>

theorem invalid_transition_fails:
  assumes "(state tr, ns) \<notin> {(CREATED, ACTIVE), (CREATED, BLOCKED), (ACTIVE, BLOCKED),
                    (ACTIVE, COMPLETED), (BLOCKED, INVALID), (COMPLETED, ARCHIVED)}"
  shows "\<exists>msg. transition_trace t1 t2 tr ns r ed = Inl (ValueError msg)"
  using assms allowed_edge_iff[of "state tr" ns]
  by (auto simp: transition_trace_def)

theorem invalid_transition_fails_witness:
  "(state created_example, COMPLETED) \<notin> {(CREATED, ACTIVE), (CREATED, BLOCKED),
       (ACTIVE, BLOCKED), (ACTIVE, COMPLETED), (BLOCKED, INVALID), (COMPLETED, ARCHIVED)} \<and>
   (\<exists>msg. transition_trace 1 2 created_example COMPLETED ''done'' None = Inl (ValueError msg))"
proof -
  have h: "(state created_example, COMPLETED) \<notin> {(CREATED, ACTIVE), (CREATED, BLOCKED),
       (ACTIVE, BLOCKED), (ACTIVE, COMPLETED), (BLOCKED, INVALID), (COMPLETED, ARCHIVED)}"
    by (simp add: created_example_def create_trace_def)
  show ?thesis using h invalid_transition_fails[OF h] by blast
qed

text \<open>Each key of a payload is bound in the appended log entry to the payload's value.\<close>

lemma payload_key_in_last_entry:
  assumes "transition_trace t1 t2 tr ns r (Some d) = Inr tr'"
    and "distinct (map fst d)"
    and "map_of d k = Some v"
  shows "map_of (last (lifecycle_log tr')) k = Some v"
  using transition_trace_Inr[OF assms(1)] assms(3)
  by (simp add: map_of_dict_update[OF assms(2)] map_add_find_right)

text \<open>
  Claim C10: a payload that names a key of the log entry replaces the transition's own
  value of that key. For every successful transition with a payload (a dictionary, so no
  key twice), each key of the payload is bound in the appended log entry to the payload's
  value; this holds for \<^verbatim>\<open>event\<close>, \<^verbatim>\<open>timestamp\<close>, \<^verbatim>\<open>reason\<close> and \<^verbatim>\<open>trace_id\<close> as for any
  other key.
\<close>

theorem payload_overwrites_log_entry:
  assumes "transition_trace t1 t2 tr ns r (Some d) = Inr tr'"
    and "distinct (map fst d)"
    and "map_of d k = Some v"
  shows "map_of (last (lifecycle_log tr')) k = Some v"
  using assms by (rule payload_key_in_last_entry)

theorem payload_overwrites_log_entry_witness:
  "distinct (map fst forged_payload) \<and>
   map_of forged_payload ''event'' = Some (PyStr ''FORGED'') \<and>
   (\<exists>tr'. transition_trace 1 2 created_example ACTIVE ''admitted'' (Some forged_payload) = Inr tr' \<and>
          map_of (last (lifecycle_log tr')) ''event'' = Some (PyStr ''FORGED''))"
proof -
  have d: "distinct (map fst forged_payload)"
    by (simp add: forged_payload_def)
  have k: "map_of forged_payload ''event'' = Some (PyStr ''FORGED'')"
    by (simp add: forged_payload_def)
  have "(state created_example, ACTIVE) \<in> {(CREATED, ACTIVE), (CREATED, BLOCKED),
       (ACTIVE, BLOCKED), (ACTIVE, COMPLETED), (BLOCKED, INVALID), (COMPLETED, ARCHIVED)}"
    by (simp add: created_example_def create_trace_def)
  from transition_trace_allowed[OF this]
  obtain tr' where
    t: "transition_trace 1 2 created_example ACTIVE ''admitted'' (Some forged_payload) = Inr tr'"
    by blast
  from payload_overwrites_log_entry[OF t d k] t d k show ?thesis by blast
qed

section \<open>Properties of the admission gate, the adapter and the admission phase\<close>

lemma prepare_metrics_D_traj: "map_of (prepare_metrics eps h) ''D_traj'' = Some 0"
  by (simp add: prepare_metrics_def)

lemma prepare_metrics_H: "map_of (prepare_metrics eps h) ''H'' = Some (EnergeticState.H eps)"
  by (simp add: prepare_metrics_def)

lemma prepare_metrics_S: "map_of (prepare_metrics eps h) ''S'' = Some (EnergeticState.S eps)"
  by (simp add: prepare_metrics_def)

lemma prepare_metrics_V: "\<exists>x. map_of (prepare_metrics eps h) ''V'' = Some x"
  by (simp add: prepare_metrics_def split: option.splits)

text \<open>
  On the metrics that \<^verbatim>\<open>admit\<close> prepares, the reason is always found: the two indexed
  keys are there.
\<close>

lemma determine_reason_total:
  "\<exists>rsn. determine_reason ff gc v eps (prepare_metrics eps h) = Inr rsn"
proof -
  obtain x where "map_of (prepare_metrics eps h) ''V'' = Some x"
    using prepare_metrics_V by blast
  then show ?thesis
    by (simp add: determine_reason_def Let_def dict_index_def prepare_metrics_D_traj)
qed

text \<open>When the decision gate returns a verdict, \<^verbatim>\<open>admit\<close> returns a result with it.\<close>

lemma admit_Inr:
  assumes "decide (gate_decision gc) (prepare_metrics eps h) = Inr v"
  shows "\<exists>rsn. admit ff t_r t_t gc eps tid h =
           Inr (\<lparr> verdict = v, reason = rsn, metrics = prepare_metrics eps h,
                   result_trace_id = tid, timestamp = t_r \<rparr>,
                gc\<lparr> gate_trace := gate_trace_trace t_t (gate_trace gc) v (eps_dict eps) rsn \<rparr>)"
proof -
  obtain rsn where "determine_reason ff gc v eps (prepare_metrics eps h) = Inr rsn"
    using determine_reason_total by blast
  with assms show ?thesis by (simp add: admit_def Let_def)
qed

lemma created_state: "state (create_trace u t od cd) = CREATED"
  by (simp add: create_trace_def)

lemma gate_event_data_distinct: "distinct (map fst (gate_event_data r))"
  by (simp add: gate_event_data_def)

lemma eps_rebuild:
  "\<lparr> EnergeticState.I = EnergeticState.I eps, P = EnergeticState.P eps, S = EnergeticState.S eps,
     H = EnergeticState.H eps, A = EnergeticState.A eps, S_a = EnergeticState.S_a eps,
     E_mu = E_mu eps, theta = EnergeticState.theta eps \<rparr> = eps"
  by simp

text \<open>
  Claim C5: whenever the gate returns a verdict \<open>v\<close>, \<^verbatim>\<open>admit_with_trace\<close> returns a
  trace and the gate's result. The trace it created is in state \<open>CREATED\<close>; the result is
  the one of the gate called with that trace's identifier; the returned trace carries the
  same identifier and is in state \<open>BLOCKED\<close> when the verdict is \<open>BLOCK\<close> and in state
  \<open>ACTIVE\<close> otherwise, so for \<open>ALLOW\<close> and \<open>REVIEW\<close>; its log is the log of the created
  trace followed by one entry, which binds \<^verbatim>\<open>gate_metrics\<close> to the gate's metrics and
  \<^verbatim>\<open>verdict\<close> to the verdict, in both branches.
\<close>

theorem admit_with_trace_couples_trace_and_verdict:
  assumes "decide (gate_decision gc) (prepare_metrics eps hist) = Inr v"
  shows "\<exists>tr r gc'.
      admit_with_trace ff env gc eps origin_d context_d hist = Inr (tr, r, gc')
    \<and> state (create_trace (uuid env) (t_create env) origin_d context_d) = CREATED
    \<and> admit ff (t_gate_result env) (t_gate_trace env) gc eps (Some (uuid env)) hist = Inr (r, gc')
    \<and> verdict r = v
    \<and> result_trace_id r = Some (uuid env)
    \<and> trace_id tr = uuid env
    \<and> state tr = (if v = ''BLOCK'' then BLOCKED else ACTIVE)
    \<and> butlast (lifecycle_log tr)
        = lifecycle_log (create_trace (uuid env) (t_create env) origin_d context_d)
    \<and> map_of (last (lifecycle_log tr)) ''gate_metrics'' = Some (metrics_val (metrics r))
    \<and> map_of (last (lifecycle_log tr)) ''verdict'' = Some (PyStr v)"
proof -
  let ?tr0 = "create_trace (uuid env) (t_create env) origin_d context_d"
  from admit_Inr[OF assms, of ff "t_gate_result env" "t_gate_trace env" "Some (uuid env)"]
  obtain r gc' where
    a: "admit ff (t_gate_result env) (t_gate_trace env) gc eps (Some (uuid env)) hist = Inr (r, gc')"
    and v: "verdict r = v" and t: "result_trace_id r = Some (uuid env)"
    by fastforce
  have tid: "trace_id ?tr0 = uuid env" by (simp add: create_trace_def)
  let ?ns = "if v = ''BLOCK'' then BLOCKED else ACTIVE"
  let ?rsn = "if v = ''BLOCK'' then reason r else ''GateCore '' @ v"
  have "(state ?tr0, ?ns) \<in> {(CREATED, ACTIVE), (CREATED, BLOCKED), (ACTIVE, BLOCKED),
                    (ACTIVE, COMPLETED), (BLOCKED, INVALID), (COMPLETED, ARCHIVED)}"
    by (simp add: created_state)
  from transition_trace_allowed[OF this]
  obtain tr where
    tt: "transition_trace (t_log env) (t_close env) ?tr0 ?ns ?rsn (Some (gate_event_data r)) = Inr tr"
    by blast
  have res: "admit_with_trace ff env gc eps origin_d context_d hist = Inr (tr, r, gc')"
    using a tt v by (simp add: admit_with_trace_def Let_def tid eps_rebuild split: if_splits)
  note shape = transition_trace_Inr[OF tt]
  have m: "map_of (gate_event_data r) ''gate_metrics'' = Some (metrics_val (metrics r))"
    and vv: "map_of (gate_event_data r) ''verdict'' = Some (PyStr v)"
    by (simp_all add: gate_event_data_def v)
  have l1: "map_of (last (lifecycle_log tr)) ''gate_metrics'' = Some (metrics_val (metrics r))"
    by (rule payload_key_in_last_entry[OF tt gate_event_data_distinct m])
  have l2: "map_of (last (lifecycle_log tr)) ''verdict'' = Some (PyStr v)"
    by (rule payload_key_in_last_entry[OF tt gate_event_data_distinct vv])
  show ?thesis
    using res a v t l1 l2 shape by (auto simp: created_state tid)
qed

lemma dummy_allows:
  "decide (gate_decision dummy_gatecore) (prepare_metrics example_eps None) = Inr ''ALLOW''"
  by (simp add: dummy_gatecore_def DummyDecisionGate_def Let_def dict_get_def
      prepare_metrics_H prepare_metrics_S example_eps_def)

lemma dummy_blocks:
  "decide (gate_decision dummy_gatecore) (prepare_metrics unstable_eps None) = Inr ''BLOCK''"
  by (simp add: dummy_gatecore_def DummyDecisionGate_def Let_def dict_get_def
      prepare_metrics_H prepare_metrics_S unstable_eps_def)

theorem admit_with_trace_couples_trace_and_verdict_witness:
  "decide (gate_decision dummy_gatecore) (prepare_metrics example_eps None) = Inr ''ALLOW'' \<and>
   (\<exists>tr r gc'.
      admit_with_trace example_format example_env dummy_gatecore example_eps
        default_origin default_context None = Inr (tr, r, gc')
    \<and> verdict r = ''ALLOW'' \<and> state tr = ACTIVE
    \<and> map_of (last (lifecycle_log tr)) ''verdict'' = Some (PyStr ''ALLOW'')) \<and>
   decide (gate_decision dummy_gatecore) (prepare_metrics unstable_eps None) = Inr ''BLOCK'' \<and>
   (\<exists>tr r gc'.
      admit_with_trace example_format example_env dummy_gatecore unstable_eps
        default_origin default_context None = Inr (tr, r, gc')
    \<and> verdict r = ''BLOCK'' \<and> state tr = BLOCKED
    \<and> map_of (last (lifecycle_log tr)) ''verdict'' = Some (PyStr ''BLOCK''))"
proof -
  from admit_with_trace_couples_trace_and_verdict[OF dummy_allows,
      of example_format example_env default_origin default_context]
  have 1: "\<exists>tr r gc'.
      admit_with_trace example_format example_env dummy_gatecore example_eps
        default_origin default_context None = Inr (tr, r, gc')
    \<and> verdict r = ''ALLOW'' \<and> state tr = ACTIVE
    \<and> map_of (last (lifecycle_log tr)) ''verdict'' = Some (PyStr ''ALLOW'')"
    by auto
  from admit_with_trace_couples_trace_and_verdict[OF dummy_blocks,
      of example_format example_env default_origin default_context]
  have 2: "\<exists>tr r gc'.
      admit_with_trace example_format example_env dummy_gatecore unstable_eps
        default_origin default_context None = Inr (tr, r, gc')
    \<and> verdict r = ''BLOCK'' \<and> state tr = BLOCKED
    \<and> map_of (last (lifecycle_log tr)) ''verdict'' = Some (PyStr ''BLOCK'')"
    by auto
  from 1 2 dummy_allows dummy_blocks show ?thesis by blast
qed

text \<open>
  Claim C1: with no gate configured, the admission phase returns a trajectory with
  verdict \<open>ALLOW\<close>, for every state, origin and context; it never returns \<^verbatim>\<open>None\<close>, the
  result of a blocked input, and never raises. With a trajectory builder, the trajectory
  carries the freshly created trace, moved to \<open>ACTIVE\<close>: its log has the creation entry
  and the entry of that transition, and it is not closed. Without one, the trajectory
  carries no trace.
\<close>

theorem admission_without_gate_allows:
  "\<exists>traj. phase_trajectory_admission ff env None tb eps origin_opt context_opt = Inr (Some traj, None)
     \<and> traj_verdict traj = ''ALLOW''
     \<and> traj_eps traj = eps
     \<and> traj_gate_result traj = None
     \<and> traj_trace_id traj = uuid env
     \<and> (case tb of
          None \<Rightarrow> traj_trace traj = None
        | Some b \<Rightarrow> (\<exists>tr. traj_trace traj = Some tr \<and> state tr = ACTIVE \<and> trace_id tr = uuid env
                        \<and> closed_at tr = None \<and> length (lifecycle_log tr) = 2))"
proof (cases tb)
  case None
  then show ?thesis by (simp add: phase_trajectory_admission_def)
next
  case (Some b)
  let ?od = "case origin_opt of None \<Rightarrow> default_origin | Some d \<Rightarrow> d"
  let ?cd = "case context_opt of None \<Rightarrow> default_context | Some d \<Rightarrow> d"
  let ?tr0 = "create_trace (uuid env) (t_create env) ?od ?cd"
  have "(state ?tr0, ACTIVE) \<in> {(CREATED, ACTIVE), (CREATED, BLOCKED), (ACTIVE, BLOCKED),
                    (ACTIVE, COMPLETED), (BLOCKED, INVALID), (COMPLETED, ARCHIVED)}"
    by (simp add: created_state)
  from transition_trace_allowed[OF this]
  obtain tr where
    tt: "transition_trace (t_log env) (t_close env) ?tr0 ACTIVE ''No GateCore'' None = Inr tr"
    by blast
  note shape = transition_trace_Inr[OF tt]
  have "phase_trajectory_admission ff env None tb eps origin_opt context_opt
        = Inr (Some \<lparr> traj_trace_id = trace_id tr, traj_eps = eps, traj_verdict = ''ALLOW'',
                       traj_gate_result = None, traj_metrics = None, traj_trace = Some tr \<rparr>, None)"
    using Some tt by (simp add: phase_trajectory_admission_def Let_def)
  moreover have "state tr = ACTIVE" "trace_id tr = uuid env" "closed_at tr = None"
    "length (lifecycle_log tr) = 2"
    using shape by (simp_all add: create_trace_def)
  ultimately show ?thesis using Some by simp
qed

theorem admission_without_gate_allows_witness:
  "\<exists>traj tr. phase_trajectory_admission example_format example_env None (Some TrajectoryBuilder)
       unstable_eps None None = Inr (Some traj, None)
     \<and> traj_verdict traj = ''ALLOW'' \<and> traj_trace traj = Some tr \<and> state tr = ACTIVE"
  using admission_without_gate_allows[of example_format example_env "Some TrajectoryBuilder"
      unstable_eps None None]
  by auto

text \<open>
  As shipped, no kernel library is among the sources: without one the bridge raises, and
  \<^verbatim>\<open>admit\<close> with it, whatever the state.
\<close>

lemma admit_without_library:
  assumes "gate_decision gc = DecisionGate bridge pol" and "library bridge = None"
  shows "admit ff t_r t_t gc eps tid hist = Inl (RuntimeError ''Library not loaded'')"
  using assms by (simp add: admit_def DecisionGate_def decision_gate_def Let_def)

lemma verdict_map_lookup:
  "dict_get verdict_map 0 d = ''ALLOW''"
  "dict_get verdict_map 1 d = ''REVIEW''"
  "dict_get verdict_map 2 d = ''BLOCK''"
  by (simp_all add: verdict_map_def dict_get_def)

lemma prepare_metrics_get:
  "dict_get (prepare_metrics eps h) ''S'' d = EnergeticState.S eps"
  "dict_get (prepare_metrics eps h) ''H'' d = EnergeticState.H eps"
  "dict_get (prepare_metrics eps h) ''E_mu'' d = E_mu eps"
  "dict_get (prepare_metrics eps h) ''D_traj'' d = 0"
  by (simp_all add: dict_get_def prepare_metrics_def)

text \<open>
  The verdict of \<^verbatim>\<open>DecisionGate.decide\<close> on the metrics of a state, when the library
  gives the verdicts of the specification on that state.
\<close>

lemma decide_on_spec_kernel:
  assumes "gate_decision gc = DecisionGate bridge pol"
    and "library bridge = Some (cogman_decision_gate (prepare_metrics eps hist) pol)"
  shows "decide (gate_decision gc) (prepare_metrics eps hist)
         = Inr (dict_get verdict_map
                  (cogman_decision_gate (prepare_metrics eps hist) pol
                     \<lparr> rule_fail = (if dict_get pol ''rule_fail'' 0 \<noteq> 0 then 1 else 0),
                       E_mu_restrict_min = dict_get pol ''E_mu_restrict_min'' (- (10 ^ 10)),
                       E_mu_restrict_max = dict_get pol ''E_mu_restrict_max'' (10 ^ 10),
                       H_threshold = dict_get pol ''H_threshold'' 0.85,
                       D_traj_threshold = dict_get pol ''D_traj_threshold'' 0.7 \<rparr>
                     (EnergeticState.H eps) 0)
                  ''UNKNOWN'')"
  using assms by (simp add: DecisionGate_def decision_gate_def Let_def prepare_metrics_get)

text \<open>With such a library a state with \<open>S = 0\<close> is blocked, whatever its entropy.\<close>

lemma admit_blocks_at_S_zero:
  assumes "gate_decision gc = DecisionGate bridge pol"
    and "library bridge = Some (cogman_decision_gate (prepare_metrics eps hist) pol)"
    and "EnergeticState.S eps = 0"
  shows "\<exists>r gc'. admit ff t_r t_t gc eps tid hist = Inr (r, gc') \<and> verdict r = ''BLOCK''"
proof -
  have "decide (gate_decision gc) (prepare_metrics eps hist) = Inr ''BLOCK''"
    using assms(3)
    by (simp add: decide_on_spec_kernel[OF assms(1) assms(2)] cogman_decision_gate_def
        prepare_metrics_get verdict_map_lookup)
  from admit_Inr[OF this] show ?thesis by fastforce
qed



lemma no_history_metrics:
  "dict_get (prepare_metrics eps None) ''V'' 0 = 0"
  "dict_get (prepare_metrics eps None) ''T'' 0 = 0"
  by (simp_all add: prepare_metrics_def dict_get_def)





section \<open>Properties of the working-memory router\<close>

text \<open>The three gates together: entropy at most the ceiling, and the safety check.\<close>

lemma all_values_gate_control:
  "all_values (gate_control ff ctrl st) \<longleftrightarrow>
     EPS8State.H st \<le> H_max ctrl \<and>
     (case gatecore ctrl of
        Some gc \<Rightarrow> pass (evaluate_safety ff gc (EPS8State.S st))
      | None \<Rightarrow> \<not> EPS8State.S st < S_min ctrl)"
  by (auto simp: all_values_def gate_control_def Let_def split: option.splits)

lemma gate_control_lookup:
  "map_of (gate_control ff ctrl st) ''entropy'' = Some (EPS8State.H st \<le> H_max ctrl)"
  "map_of (gate_control ff ctrl st) ''safety'' =
     Some (case gatecore ctrl of
             Some gc \<Rightarrow> pass (evaluate_safety ff gc (EPS8State.S st))
           | None \<Rightarrow> \<not> EPS8State.S st < S_min ctrl)"
  "map_of (gate_control ff ctrl st) ''budget'' = Some True"
  by (auto simp: gate_control_def Let_def split: option.splits)

text \<open>The gate's safety check passes exactly from the configured minimum of \<open>S\<close> upwards.\<close>

lemma evaluate_safety_pass:
  "pass (evaluate_safety ff gc s) \<longleftrightarrow> s \<ge> dict_get (policy (gate_decision gc)) ''S_min'' 0.5"
  by (simp add: evaluate_safety_def Let_def)

lemma default_ceilings:
  "H_max (WMController_init gc mem None) = 0.62"
  "S_min (WMController_init gc mem None) = 0.5"
  by (simp_all add: WMController_init_def dict_get_def)

text \<open>
  Claim C7: let \<open>cur\<close> be the state that \<^verbatim>\<open>process\<close> reads from its input. When the
  entropy gate fails (\<open>H\<close> of \<open>cur\<close> above the configured ceiling) or the safety gate fails
  (the gate's \<^verbatim>\<open>evaluate_safety\<close> does not pass, or, with no gate, \<open>S\<close> of \<open>cur\<close> is below
  the local minimum), the output has the decision \<open>BLOCKED\<close>, the modulated state \<open>cur\<close>
  itself and no resonance score; the trajectory gains no state. The entropy entry of the
  gate status is true exactly when \<open>H\<close> is at most the ceiling, and the budget entry is
  always true.
\<close>

theorem process_blocked_on_gate_failure:
  "let traj = dict_to_trajectory t_default td;
       cur = (if wm_states traj \<noteq> [] then last (wm_states traj) else create_default_state);
       out = process ff t_default t_out ctrl td
   in (EPS8State.H cur > H_max ctrl \<or>
       (case gatecore ctrl of
          Some gc \<Rightarrow> \<not> pass (evaluate_safety ff gc (EPS8State.S cur))
        | None \<Rightarrow> EPS8State.S cur < S_min ctrl))
      \<longrightarrow> navigation_decision out = ''BLOCKED'' \<and> modulated_eps8 out = cur
          \<and> resonance_scores out = [] \<and> wm_states (out_trajectory out) = wm_states traj
          \<and> map_of (gate_status out) ''entropy'' = Some (EPS8State.H cur \<le> H_max ctrl)
          \<and> map_of (gate_status out) ''budget'' = Some True"
  unfolding Let_def
proof
  let ?traj = "dict_to_trajectory t_default td"
  let ?cur = "if wm_states ?traj \<noteq> [] then last (wm_states ?traj) else create_default_state"
  assume "H_max ctrl < EPS8State.H ?cur \<or>
       (case gatecore ctrl of
          Some gc \<Rightarrow> \<not> pass (evaluate_safety ff gc (EPS8State.S ?cur))
        | None \<Rightarrow> EPS8State.S ?cur < S_min ctrl)"
  then have "\<not> all_values (gate_control ff ctrl ?cur)"
    by (auto simp: all_values_gate_control split: option.splits)
  then show "navigation_decision (process ff t_default t_out ctrl td) = ''BLOCKED'' \<and>
     modulated_eps8 (process ff t_default t_out ctrl td) = ?cur \<and>
     resonance_scores (process ff t_default t_out ctrl td) = [] \<and>
     wm_states (out_trajectory (process ff t_default t_out ctrl td)) = wm_states ?traj \<and>
     map_of (gate_status (process ff t_default t_out ctrl td)) ''entropy''
       = Some (EPS8State.H ?cur \<le> H_max ctrl) \<and>
     map_of (gate_status (process ff t_default t_out ctrl td)) ''budget'' = Some True"
    by (simp add: process_def Let_def gate_control_lookup)
qed

lemma noisy_current_state:
  "wm_states (dict_to_trajectory 0 noisy_trajectory)
   = [\<lparr> I = 0.7, P = 0.6, S = 0.8, H = 0.9, F = 0, A = 0.5, S_a = 0.4, theta = 1.2 \<rparr>]"
  by (simp add: dict_to_trajectory_def noisy_trajectory_def dict_get_def)

theorem process_blocked_on_gate_failure_witness:
  "EPS8State.H (last (wm_states (dict_to_trajectory 0 noisy_trajectory)))
     > H_max (WMController_init None (Some strong_fields) None) \<and>
   navigation_decision
     (process example_format 0 1 (WMController_init None (Some strong_fields) None) noisy_trajectory)
     = ''BLOCKED'' \<and>
   resonance_scores
     (process example_format 0 1 (WMController_init None (Some strong_fields) None) noisy_trajectory)
     = []"
proof -
  have h: "EPS8State.H (last (wm_states (dict_to_trajectory 0 noisy_trajectory)))
     > H_max (WMController_init None (Some strong_fields) None)"
    by (simp add: noisy_current_state default_ceilings)
  from process_blocked_on_gate_failure[of 0 noisy_trajectory example_format 1
      "WMController_init None (Some strong_fields) None"] h
  show ?thesis by (simp add: Let_def noisy_current_state)
qed

text \<open>The decision as one chain of tests.\<close>

lemma navigation_decision_of_chain:
  "navigation_decision_of st scores m =
     (if dict_get scores ''episodic'' 0 > 0.7 then ''EXTEND_PATH''
      else if dict_get scores ''semantic'' 0 > 0.8 then ''RECALL_SN''
      else if EPS8State.I m > 0.8 \<and> EPS8State.S m > 0.7 then ''TRIGGER_ACTION''
      else if EPS8State.H m < 0.2 then ''ACTIVATE_REFLEX''
      else ''CREATE_NEW_SN'')"
  by (simp add: navigation_decision_of_def Let_def)

text \<open>When the gates pass, the decision of the output is the one taken on its scores and its modulated state.\<close>

lemma process_passed:
  assumes "all_values (gate_control ff ctrl
             (if wm_states (dict_to_trajectory t_default td) \<noteq> []
              then last (wm_states (dict_to_trajectory t_default td))
              else create_default_state))"
  shows "navigation_decision (process ff t_default t_out ctrl td)
         = navigation_decision_of
             (if wm_states (dict_to_trajectory t_default td) \<noteq> []
              then last (wm_states (dict_to_trajectory t_default td))
              else create_default_state)
             (resonance_scores (process ff t_default t_out ctrl td))
             (modulated_eps8 (process ff t_default t_out ctrl td))"
  using assms by (simp add: process_def Let_def)

text \<open>
  Claim C8: for every state, score set and modulated state the decision follows the
  precedence: episodic resonance above 0.7 gives \<open>EXTEND_PATH\<close>; else semantic resonance
  above 0.8 gives \<open>RECALL_SN\<close>; else modulated \<open>I\<close> above 0.8 and modulated \<open>S\<close> above 0.7
  give \<open>TRIGGER_ACTION\<close>; else modulated \<open>H\<close> below 0.2 gives \<open>ACTIVATE_REFLEX\<close>; else
  \<open>CREATE_NEW_SN\<close>. The decision is one of these five labels and never \<open>BLOCKED\<close>. When
  the gates of \<^verbatim>\<open>process\<close> pass, the decision in its output is this decision, taken on
  the output's scores and modulated state.
\<close>

theorem navigation_precedence:
  "navigation_decision_of st scores m =
     (if dict_get scores ''episodic'' 0 > 0.7 then ''EXTEND_PATH''
      else if dict_get scores ''semantic'' 0 > 0.8 then ''RECALL_SN''
      else if EPS8State.I m > 0.8 \<and> EPS8State.S m > 0.7 then ''TRIGGER_ACTION''
      else if EPS8State.H m < 0.2 then ''ACTIVATE_REFLEX''
      else ''CREATE_NEW_SN'')
   \<and> navigation_decision_of st scores m \<in>
       {''EXTEND_PATH'', ''RECALL_SN'', ''TRIGGER_ACTION'', ''ACTIVATE_REFLEX'', ''CREATE_NEW_SN''}
   \<and> navigation_decision_of st scores m \<noteq> ''BLOCKED''
   \<and> (let traj = dict_to_trajectory t_default td;
           cur = (if wm_states traj \<noteq> [] then last (wm_states traj) else create_default_state);
           out = process ff t_default t_out ctrl td
       in all_values (gate_control ff ctrl cur) \<longrightarrow>
            navigation_decision out
              = navigation_decision_of cur (resonance_scores out) (modulated_eps8 out))"
proof -
  have "navigation_decision_of st scores m \<in>
       {''EXTEND_PATH'', ''RECALL_SN'', ''TRIGGER_ACTION'', ''ACTIVATE_REFLEX'', ''CREATE_NEW_SN''}"
    and "navigation_decision_of st scores m \<noteq> ''BLOCKED''"
    by (simp_all add: navigation_decision_of_chain)
  then show ?thesis
    using navigation_decision_of_chain[of st scores m] process_passed[of ff ctrl t_default td t_out]
    by (simp add: Let_def)
qed

lemma calm_current_state:
  "wm_states (dict_to_trajectory 0 calm_trajectory) = [calm_state]"
  by (simp add: dict_to_trajectory_def calm_trajectory_def calm_state_def dict_get_def)

lemma calm_passes:
  "all_values (gate_control example_format (WMController_init None (Some strong_fields) None)
     calm_state)"
  by (simp add: all_values_gate_control calm_state_def WMController_init_def dict_get_def)

lemma strong_scores:
  "invoke_memory_resonance (WMController_init None (Some strong_fields) None) st
   = [(''episodic'', 0.9), (''semantic'', 0.9)]"
  by (simp add: invoke_memory_resonance_def WMController_init_def strong_fields_def)

theorem navigation_precedence_witness:
  "all_values (gate_control example_format (WMController_init None (Some strong_fields) None)
     calm_state) \<and>
   navigation_decision
     (process example_format 0 1 (WMController_init None (Some strong_fields) None) calm_trajectory)
   = ''EXTEND_PATH''"
proof -
  have s: "resonance_scores
     (process example_format 0 1 (WMController_init None (Some strong_fields) None) calm_trajectory)
     = [(''episodic'', 0.9), (''semantic'', 0.9)]"
    using calm_passes by (simp add: process_def Let_def calm_current_state strong_scores)
  from navigation_precedence[of calm_state "[(''episodic'', 0.9), (''semantic'', 0.9)]"
      "modulated_eps8 (process example_format 0 1
         (WMController_init None (Some strong_fields) None) calm_trajectory)"
      0 calm_trajectory example_format 1 "WMController_init None (Some strong_fields) None"]
    calm_passes
  show ?thesis by (simp add: Let_def calm_current_state s dict_get_def)
qed

text \<open>What the modulation does to each field.\<close>

lemma context_modulation_fields:
  "EPS8State.I (context_modulation st scores) =
     EPS8State.I st * (if dict_get scores ''semantic'' 0 > 0.8 then 1.05
                       else if dict_get scores ''episodic'' 0 > 0.7 then 1.1 else 1)"
  "EPS8State.S (context_modulation st scores) =
     (if dict_get scores ''semantic'' 0 > 0.8 then min (EPS8State.S st * 1.05) 1
      else min (EPS8State.S st) 1)"
  "EPS8State.P (context_modulation st scores) = EPS8State.P st"
  "EPS8State.H (context_modulation st scores) = EPS8State.H st"
  "EPS8State.F (context_modulation st scores) = EPS8State.F st"
  "EPS8State.A (context_modulation st scores) = EPS8State.A st"
  "EPS8State.S_a (context_modulation st scores) = EPS8State.S_a st"
  "EPS8State.theta (context_modulation st scores) = EPS8State.theta st"
  by (simp_all add: context_modulation_def Let_def)

text \<open>
  Claim C2 says that intensity \<open>I\<close> is scaled by 1.10 whenever the episodic resonance is
  above 0.7, whatever the semantic resonance. In the source the test on the semantic
  resonance comes second and assigns the same factor, so with both resonances strong the
  factor is 1.05. The state with \<open>I = 0.7\<close> and both scores at 0.9 comes out with
  \<open>I = 0.735\<close>, not \<open>0.77\<close>, from the modulation alone and from \<^verbatim>\<open>process\<close>.
\<close>

theorem context_modulation_both_strong:
  "EPS8State.I (context_modulation calm_state [(''episodic'', 0.9), (''semantic'', 0.9)]) = 0.735 \<and>
   EPS8State.I calm_state * 1.1 = 0.77 \<and>
   EPS8State.I (modulated_eps8
     (process example_format 0 1 (WMController_init None (Some strong_fields) None) calm_trajectory))
     = 0.735"
proof -
  have 1: "EPS8State.I (context_modulation calm_state [(''episodic'', 0.9), (''semantic'', 0.9)])
           = 0.735"
    by (simp add: context_modulation_fields dict_get_def calm_state_def)
  have 2: "EPS8State.I calm_state * 1.1 = 0.77"
    by (simp add: calm_state_def)
  have 3: "modulated_eps8
     (process example_format 0 1 (WMController_init None (Some strong_fields) None) calm_trajectory)
     = context_modulation calm_state [(''episodic'', 0.9), (''semantic'', 0.9)]"
    using calm_passes by (simp add: process_def Let_def calm_current_state strong_scores)
  from 1 2 3 show ?thesis by simp
qed

section \<open>Properties of the run loop\<close>

text \<open>A cycle writes \<open>current_phase\<close> only: the running flag and the system state stay.\<close>

lemma execute_cycle_flags:
  assumes "execute_cycle E loop w = (res, loop', w')"
  shows "running loop' = running loop \<and> system_state loop' = system_state loop"
  using assms
  by (auto simp: execute_cycle_def Let_def split: prod.splits sum.splits option.splits)

text \<open>
  An exception of a phase handler leaves the cycle at once, with \<open>current_phase\<close> at that
  phase and the world as the handler left it; the later handlers are not called. The
  first five phases, and the blocked trajectory, which ends the cycle without an
  exception.
\<close>

lemma raise_in_idle:
  assumes "phase_idle E w = (Inl e, w1)"
  shows "execute_cycle E loop w = (Inl e, loop\<lparr> current_phase := IDLE \<rparr>, w1)"
  using assms by (simp add: execute_cycle_def)

lemma raise_in_input_intake:
  assumes "phase_idle E w = (Inr (Some i), w1)"
    and "phase_input_intake E i w1 = (Inl e, w2)"
  shows "execute_cycle E loop w = (Inl e, loop\<lparr> current_phase := INPUT_INTAKE \<rparr>, w2)"
  using assms by (simp add: execute_cycle_def)

lemma raise_in_sensory_adaptation:
  assumes "phase_idle E w = (Inr (Some i), w1)"
    and "phase_input_intake E i w1 = (Inr raw, w2)"
    and "phase_sensory_adaptation E raw w2 = (Inl e, w3)"
  shows "execute_cycle E loop w = (Inl e, loop\<lparr> current_phase := SENSORY_ADAPTATION \<rparr>, w3)"
  using assms by (simp add: execute_cycle_def)

lemma raise_in_perception_boundary:
  assumes "phase_idle E w = (Inr (Some i), w1)"
    and "phase_input_intake E i w1 = (Inr raw, w2)"
    and "phase_sensory_adaptation E raw w2 = (Inr org, w3)"
    and "phase_perception_boundary E org w3 = (Inl e, w4)"
  shows "execute_cycle E loop w = (Inl e, loop\<lparr> current_phase := PERCEPTION_BOUNDARY \<rparr>, w4)"
  using assms by (simp add: execute_cycle_def)

lemma raise_in_admission:
  assumes "phase_idle E w = (Inr (Some i), w1)"
    and "phase_input_intake E i w1 = (Inr raw, w2)"
    and "phase_sensory_adaptation E raw w2 = (Inr org, w3)"
    and "phase_perception_boundary E org w3 = (Inr eps, w4)"
    and "phase_admission E eps
           [(''source_id'', source_id_of E raw), (''modality'', modality_of E org),
            (''adapter'', PyStr ''sensory'')]
           [(''gate_profile'', PyStr ''default''), (''runtime_mode'', PyStr ''normal'')] w4
         = (Inl e, w5)"
  shows "execute_cycle E loop w = (Inl e, loop\<lparr> current_phase := TRAJECTORY_ADMISSION \<rparr>, w5)"
  using assms by (simp add: execute_cycle_def)

lemma blocked_ends_cycle:
  assumes "phase_idle E w = (Inr (Some i), w1)"
    and "phase_input_intake E i w1 = (Inr raw, w2)"
    and "phase_sensory_adaptation E raw w2 = (Inr org, w3)"
    and "phase_perception_boundary E org w3 = (Inr eps, w4)"
    and "phase_admission E eps
           [(''source_id'', source_id_of E raw), (''modality'', modality_of E org),
            (''adapter'', PyStr ''sensory'')]
           [(''gate_profile'', PyStr ''default''), (''runtime_mode'', PyStr ''normal'')] w4
         = (Inr None, w5)"
  shows "execute_cycle E loop w = (Inr (), loop\<lparr> current_phase := TRAJECTORY_ADMISSION \<rparr>, w5)"
  using assms by (simp add: execute_cycle_def)

text \<open>What the error handler keeps of an exception.\<close>

lemma handle_error_records:
  assumes "handle_error tb now h phase err ctx sev = (res, h')"
  shows "\<exists>info. h' = \<lparr> error_count = error_count h + 1,
                       error_history = error_history h @ [info] \<rparr>
           \<and> map_of info ''phase'' = Some (PyStr phase)
           \<and> map_of info ''error_type'' = Some (PyStr (exn_type_name err))
           \<and> map_of info ''error_message'' = Some (PyStr (exn_message err))
           \<and> map_of info ''severity'' = Some (PyStr (severity_value sev))"
  using assms by (auto simp: handle_error_def Let_def)

text \<open>The message recorded for a missing key is the key inside quotes.\<close>

lemma key_error_message: "exn_message (KeyError ''D_traj'') = [CHR 0x27] @ ''D_traj'' @ [CHR 0x27]"
  by (simp add: repr_def repr_char_def Let_def)

text \<open>
  One iteration on a cycle that raises: an instance of \<^verbatim>\<open>Exception\<close> is caught, and the
  iteration ends normally; any other exception leaves the iteration, and nothing is
  recorded.
\<close>

lemma run_iteration_caught:
  assumes "execute_cycle E loop w = (Inl (Exc e), loop', w')"
  shows "run_iteration E (loop, eh, w)
         = (Inr (), loop',
            (case eh of
               None \<Rightarrow> None
             | Some h \<Rightarrow>
                 Some (snd (handle_error (format_exc E e) (fst (time_time E w')) h
                              (phase_name (current_phase loop')) e
                              (Some [(''system_state'', PyStr (system_state loop'))]) HIGH))),
            (case eh of None \<Rightarrow> w' | Some h \<Rightarrow> snd (time_time E w')))"
  using assms by (simp add: run_iteration_def split: option.splits prod.splits)

lemma run_iteration_not_caught:
  assumes "execute_cycle E loop w = (Inl (BaseExc c), loop', w')"
  shows "run_iteration E (loop, eh, w) = (Inl (BaseExc c), loop', eh, w')"
  using assms by (simp add: run_iteration_def)

lemma run_iteration_never_Exc: "fst (run_iteration E st) \<noteq> Inl (Exc x)"
  by (auto simp: run_iteration_def Let_def
      split: prod.splits sum.splits raised.splits option.splits)

text \<open>The loop, one iteration unfolded; and the loop on a stopped sequencer.\<close>

lemma while_running_continues:
  assumes "running loop" and "run_iteration E (loop, eh, w) = (Inr (), loop', rest)"
  shows "while_running (Suc fuel) E stops k (loop, eh, w)
         = while_running fuel E stops (Suc k) (if stops k then stop loop' else loop', rest)"
  using assms by simp

lemma while_running_leaves:
  assumes "running loop" and "run_iteration E (loop, eh, w) = (Inl r, loop', rest)"
  shows "while_running (Suc fuel) E stops k (loop, eh, w)
         = Some (Inl r, if stops k then stop loop' else loop', rest)"
  using assms by simp

lemma while_running_stopped:
  "while_running fuel E stops k (stop loop, rest) = Some (Inr (), stop loop, rest)"
  by (cases fuel) (simp_all add: stop_def)

text \<open>No instance of \<^verbatim>\<open>Exception\<close> ever leaves the loop.\<close>

lemma while_running_never_Exc: "while_running n E stops k st \<noteq> Some (Inl (Exc x), st')"
proof (induction n arbitrary: k st)
  case 0
  show ?case by simp
next
  case (Suc n)
  show ?case
  proof (cases "running (fst st)")
    case False
    then show ?thesis by simp
  next
    case True
    obtain res loop' rest where it: "run_iteration E st = (res, loop', rest)"
      by (cases "run_iteration E st")
    show ?thesis
    proof (cases res)
      case (Inl r)
      with run_iteration_never_Exc[of E st x] it have "r \<noteq> Exc x" by auto
      with True it Inl show ?thesis by simp
    next
      case (Inr u)
      with True it Suc.IH show ?thesis by simp
    qed
  qed
qed

text \<open>
  Claim C9, as stated: every exception raised by a phase handler is caught by the run
  loop, recorded with the error handler and followed by the next cycle, and never
  propagates out of \<^verbatim>\<open>run\<close>. The handler of the loop is \<^verbatim>\<open>except Exception\<close>, which
  does not match an exception that derives from \<^verbatim>\<open>BaseException\<close> only. When the
  perception handler raises \<^verbatim>\<open>KeyboardInterrupt\<close> in the first cycle, the exception leaves
  \<^verbatim>\<open>run\<close>, with fuel for two more cycles unused: the error handler has recorded nothing,
  the world has seen one input, and the running flag is still true.
\<close>

theorem keyboard_interrupt_leaves_run:
  "run 3 interrupted_handlers never_stopped True idle_loop 0
   = Some (Inl (BaseExc ''KeyboardInterrupt''),
           \<lparr> running = True, current_phase = PERCEPTION_BOUNDARY, system_state = ''running'' \<rparr>,
           Some \<lparr> error_count = 0, error_history = [] \<rparr>,
           Suc 0)"
  by (simp add: run_def numeral_3_eq_3 run_iteration_def execute_cycle_def
      interrupted_handlers_def faulty_handlers_def never_stopped_def
      RuntimeErrorHandler_init_def idle_loop_def)

text \<open>
  Claim C9, amended. Let \<^verbatim>\<open>run\<close> have reached, after \<open>k\<close> iterations, the state
  \<open>(loop, eh, w)\<close> with the running flag true (for \<open>k = 0\<close> this is the state in which
  \<^verbatim>\<open>run\<close> enters its loop), and let the cycle from there end with an exception \<open>r\<close> of
  a phase handler.

  When \<open>r\<close> is an instance of \<^verbatim>\<open>Exception\<close>, the iteration catches it and ends normally,
  in the state that the abandoned cycle left, with the running flag still true. With an
  error handler, its count has grown by one and its history by one record, which names
  the phase that raised, the class and the message of the exception and the severity
  \<open>high\<close>; without one (the import failed) nothing is recorded. Then \<^verbatim>\<open>run\<close> goes on
  with the next cycle from that state, or, when \<^verbatim>\<open>stop\<close> was called during the
  iteration, returns normally.

  When \<open>r\<close> derives from \<^verbatim>\<open>BaseException\<close> only, it is not caught: it leaves \<^verbatim>\<open>run\<close> at
  once, nothing is recorded and no further cycle is run.

  In no case does an instance of \<^verbatim>\<open>Exception\<close> leave \<^verbatim>\<open>run\<close>.
\<close>

theorem exception_contained_in_run:
  assumes "\<forall>fuel. run (k + fuel) E stops import_ok loop0 w0
                   = while_running fuel E stops k (loop, eh, w)"
    and "running loop"
    and "execute_cycle E loop w = (Inl r, loop', w')"
  shows "(case r of
            Exc e \<Rightarrow>
              (\<exists>eh' w''.
                  run_iteration E (loop, eh, w) = (Inr (), loop', eh', w'')
                \<and> running loop'
                \<and> (case eh of
                      None \<Rightarrow> eh' = None \<and> w'' = w'
                    | Some h \<Rightarrow>
                        w'' = snd (time_time E w') \<and>
                        (\<exists>info. eh' = Some \<lparr> error_count = error_count h + 1,
                                              error_history = error_history h @ [info] \<rparr>
                           \<and> map_of info ''phase'' = Some (PyStr (phase_name (current_phase loop')))
                           \<and> map_of info ''error_type'' = Some (PyStr (exn_type_name e))
                           \<and> map_of info ''error_message'' = Some (PyStr (exn_message e))
                           \<and> map_of info ''severity'' = Some (PyStr ''high'')))
                \<and> (\<forall>fuel. run (k + Suc fuel) E stops import_ok loop0 w0
                      = (if stops k then Some (Inr (), stop loop', eh', w'')
                         else while_running fuel E stops (Suc k) (loop', eh', w''))))
          | BaseExc c \<Rightarrow>
              (\<forall>fuel. run (k + Suc fuel) E stops import_ok loop0 w0
                 = Some (Inl (BaseExc c), if stops k then stop loop' else loop', eh, w')))
       \<and> (\<forall>n x st. run n E stops import_ok loop0 w0 \<noteq> Some (Inl (Exc x), st))"
proof
  have flag': "running loop'" using execute_cycle_flags[OF assms(3)] assms(2) by simp
  show "case r of
          Exc e \<Rightarrow>
            (\<exists>eh' w''.
                run_iteration E (loop, eh, w) = (Inr (), loop', eh', w'')
              \<and> running loop'
              \<and> (case eh of
                    None \<Rightarrow> eh' = None \<and> w'' = w'
                  | Some h \<Rightarrow>
                      w'' = snd (time_time E w') \<and>
                      (\<exists>info. eh' = Some \<lparr> error_count = error_count h + 1,
                                            error_history = error_history h @ [info] \<rparr>
                         \<and> map_of info ''phase'' = Some (PyStr (phase_name (current_phase loop')))
                         \<and> map_of info ''error_type'' = Some (PyStr (exn_type_name e))
                         \<and> map_of info ''error_message'' = Some (PyStr (exn_message e))
                         \<and> map_of info ''severity'' = Some (PyStr ''high'')))
              \<and> (\<forall>fuel. run (k + Suc fuel) E stops import_ok loop0 w0
                    = (if stops k then Some (Inr (), stop loop', eh', w'')
                       else while_running fuel E stops (Suc k) (loop', eh', w''))))
        | BaseExc c \<Rightarrow>
            (\<forall>fuel. run (k + Suc fuel) E stops import_ok loop0 w0
               = Some (Inl (BaseExc c), if stops k then stop loop' else loop', eh, w'))"
  proof (cases r)
    case (Exc e)
    let ?eh' = "case eh of
               None \<Rightarrow> None
             | Some h \<Rightarrow>
                 Some (snd (handle_error (format_exc E e) (fst (time_time E w')) h
                              (phase_name (current_phase loop')) e
                              (Some [(''system_state'', PyStr (system_state loop'))]) HIGH))"
    let ?w'' = "case eh of None \<Rightarrow> w' | Some h \<Rightarrow> snd (time_time E w')"
    have it: "run_iteration E (loop, eh, w) = (Inr (), loop', ?eh', ?w'')"
      using run_iteration_caught[of E loop w e loop' w' eh] assms(3) Exc by simp
    have rec: "case eh of
                 None \<Rightarrow> ?eh' = None \<and> ?w'' = w'
               | Some h \<Rightarrow>
                   ?w'' = snd (time_time E w') \<and>
                   (\<exists>info. ?eh' = Some \<lparr> error_count = error_count h + 1,
                                          error_history = error_history h @ [info] \<rparr>
                      \<and> map_of info ''phase'' = Some (PyStr (phase_name (current_phase loop')))
                      \<and> map_of info ''error_type'' = Some (PyStr (exn_type_name e))
                      \<and> map_of info ''error_message'' = Some (PyStr (exn_message e))
                      \<and> map_of info ''severity'' = Some (PyStr ''high''))"
    proof (cases eh)
      case None
      then show ?thesis by simp
    next
      case (Some h)
      obtain res h' where he: "handle_error (format_exc E e) (fst (time_time E w')) h
          (phase_name (current_phase loop')) e
          (Some [(''system_state'', PyStr (system_state loop'))]) HIGH = (res, h')"
        by (cases "handle_error (format_exc E e) (fst (time_time E w')) h
          (phase_name (current_phase loop')) e
          (Some [(''system_state'', PyStr (system_state loop'))]) HIGH")
      from handle_error_records[OF he] he Some show ?thesis by auto
    qed
    have go: "\<forall>fuel. run (k + Suc fuel) E stops import_ok loop0 w0
                = (if stops k then Some (Inr (), stop loop', ?eh', ?w'')
                   else while_running fuel E stops (Suc k) (loop', ?eh', ?w''))"
    proof
      fix fuel
      have "run (k + Suc fuel) E stops import_ok loop0 w0
            = while_running (Suc fuel) E stops k (loop, eh, w)"
        using assms(1) by blast
      also have "\<dots> = while_running fuel E stops (Suc k)
                        (if stops k then stop loop' else loop', ?eh', ?w'')"
        by (rule while_running_continues[OF assms(2) it])
      finally show "run (k + Suc fuel) E stops import_ok loop0 w0
                = (if stops k then Some (Inr (), stop loop', ?eh', ?w'')
                   else while_running fuel E stops (Suc k) (loop', ?eh', ?w''))"
        by (simp add: while_running_stopped)
    qed
    from it flag' rec go Exc show ?thesis by (simp only: raised.case) blast
  next
    case (BaseExc c)
    have it: "run_iteration E (loop, eh, w) = (Inl (BaseExc c), loop', eh, w')"
      using run_iteration_not_caught[of E loop w c loop' w' eh] assms(3) BaseExc by simp
    have "\<forall>fuel. run (k + Suc fuel) E stops import_ok loop0 w0
            = Some (Inl (BaseExc c), if stops k then stop loop' else loop', eh, w')"
    proof
      fix fuel
      have "run (k + Suc fuel) E stops import_ok loop0 w0
            = while_running (Suc fuel) E stops k (loop, eh, w)"
        using assms(1) by blast
      also have "\<dots> = Some (Inl (BaseExc c), if stops k then stop loop' else loop', eh, w')"
        by (rule while_running_leaves[OF assms(2) it])
      finally show "run (k + Suc fuel) E stops import_ok loop0 w0
            = Some (Inl (BaseExc c), if stops k then stop loop' else loop', eh, w')" .
    qed
    with BaseExc show ?thesis by simp
  qed
next
  show "\<forall>n x st. run n E stops import_ok loop0 w0 \<noteq> Some (Inl (Exc x), st)"
    by (simp add: run_def while_running_never_Exc)
qed

text \<open>
  The handlers of which the perception phase divides by zero in every cycle, with
  \<^verbatim>\<open>stop\<close> called during the second iteration: both exceptions are caught and recorded,
  the second cycle is run after the first, and \<^verbatim>\<open>run\<close> returns normally.
\<close>

lemma faulty_cycle:
  "execute_cycle faulty_handlers loop w
   = (Inl (Exc (Exception ''ZeroDivisionError'' ''float division by zero'')),
      loop\<lparr> current_phase := PERCEPTION_BOUNDARY \<rparr>, Suc w)"
  by (simp add: execute_cycle_def faulty_handlers_def)

lemma faulty_clock: "snd (time_time faulty_handlers w) = w"
  by (simp add: faulty_handlers_def)

lemma run_enters_loop:
  "\<forall>fuel. run (0 + fuel) E stops import_ok loop w
     = while_running fuel E stops 0
         (loop\<lparr> running := True \<rparr>, (if import_ok then Some RuntimeErrorHandler_init else None), w)"
  by (simp add: run_def)

theorem exception_contained_in_run_witness:
  "(\<forall>fuel. run (0 + fuel) faulty_handlers stopped_in_second True idle_loop 0
       = while_running fuel faulty_handlers stopped_in_second 0
           (idle_loop\<lparr> running := True \<rparr>, Some RuntimeErrorHandler_init, 0)) \<and>
   running (idle_loop\<lparr> running := True \<rparr>) \<and>
   execute_cycle faulty_handlers (idle_loop\<lparr> running := True \<rparr>) 0
     = (Inl (Exc (Exception ''ZeroDivisionError'' ''float division by zero'')),
        idle_loop\<lparr> running := True, current_phase := PERCEPTION_BOUNDARY \<rparr>, Suc 0) \<and>
   (\<exists>info1 info2.
      run 2 faulty_handlers stopped_in_second True idle_loop 0
        = Some (Inr (),
                \<lparr> running = False, current_phase = PERCEPTION_BOUNDARY,
                  system_state = ''running'' \<rparr>,
                Some \<lparr> error_count = 2, error_history = [info1, info2] \<rparr>,
                2)
    \<and> map_of info1 ''phase'' = Some (PyStr ''PERCEPTION_BOUNDARY'')
    \<and> map_of info1 ''error_type'' = Some (PyStr ''ZeroDivisionError'')
    \<and> map_of info1 ''error_message'' = Some (PyStr ''float division by zero'')
    \<and> map_of info1 ''severity'' = Some (PyStr ''high'')
    \<and> map_of info2 ''phase'' = Some (PyStr ''PERCEPTION_BOUNDARY''))"
proof -
  let ?E = faulty_handlers
  let ?e = "Exception ''ZeroDivisionError'' ''float division by zero''"
  let ?L0 = "idle_loop\<lparr> running := True \<rparr>"
  let ?L1 = "idle_loop\<lparr> running := True, current_phase := PERCEPTION_BOUNDARY \<rparr>"
  have reach0: "\<forall>fuel. run (0 + fuel) ?E stopped_in_second True idle_loop 0
       = while_running fuel ?E stopped_in_second 0 (?L0, Some RuntimeErrorHandler_init, 0)"
    using run_enters_loop[of ?E stopped_in_second True idle_loop 0] by simp
  have flag0: "running ?L0" by simp
  have cycle0: "execute_cycle ?E ?L0 0 = (Inl (Exc ?e), ?L1, Suc 0)"
    by (simp add: faulty_cycle)
  from exception_contained_in_run[OF reach0 flag0 cycle0]
  obtain eh1 w1 info1 where
    w1: "w1 = Suc 0"
    and eh1: "eh1 = Some \<lparr> error_count = 1, error_history = [info1] \<rparr>"
    and i1: "map_of info1 ''phase'' = Some (PyStr ''PERCEPTION_BOUNDARY'')"
      "map_of info1 ''error_type'' = Some (PyStr ''ZeroDivisionError'')"
      "map_of info1 ''error_message'' = Some (PyStr ''float division by zero'')"
      "map_of info1 ''severity'' = Some (PyStr ''high'')"
    and go1: "\<forall>fuel. run (0 + Suc fuel) ?E stopped_in_second True idle_loop 0
       = while_running fuel ?E stopped_in_second (Suc 0) (?L1, eh1, w1)"
    by (auto simp: faulty_clock RuntimeErrorHandler_init_def stopped_in_second_def)
  have reach1: "\<forall>fuel. run (Suc 0 + fuel) ?E stopped_in_second True idle_loop 0
       = while_running fuel ?E stopped_in_second (Suc 0)
           (?L1, Some \<lparr> error_count = 1, error_history = [info1] \<rparr>, Suc 0)"
    using go1 by (simp add: eh1 w1)
  have flag1: "running ?L1" by simp
  have cycle1: "execute_cycle ?E ?L1 (Suc 0) = (Inl (Exc ?e), ?L1, Suc (Suc 0))"
    by (simp add: faulty_cycle)
  from exception_contained_in_run[OF reach1 flag1 cycle1]
  obtain eh2 w2 info2 where
    w2: "w2 = Suc (Suc 0)"
    and eh2: "eh2 = Some \<lparr> error_count = 2, error_history = [info1, info2] \<rparr>"
    and i2: "map_of info2 ''phase'' = Some (PyStr ''PERCEPTION_BOUNDARY'')"
    and go2: "\<forall>fuel. run (Suc 0 + Suc fuel) ?E stopped_in_second True idle_loop 0
       = Some (Inr (), stop ?L1, eh2, w2)"
    by (auto simp: faulty_clock stopped_in_second_def)
  from go2 have "run 2 ?E stopped_in_second True idle_loop 0
       = Some (Inr (), stop ?L1, Some \<lparr> error_count = 2, error_history = [info1, info2] \<rparr>, 2)"
    by (simp add: eh2 w2 numeral_2_eq_2)
  then have "run 2 ?E stopped_in_second True idle_loop 0
       = Some (Inr (),
               \<lparr> running = False, current_phase = PERCEPTION_BOUNDARY,
                 system_state = ''running'' \<rparr>,
               Some \<lparr> error_count = 2, error_history = [info1, info2] \<rparr>, 2)"
    by (simp add: stop_def idle_loop_def)
  with reach0 flag0 cycle0 i1 i2 show ?thesis by blast
qed

end
